theory Spec2Isabelle
  imports Main
begin

section \<open>JavaScript values, strings and arrays\<close>

text \<open>
  Navigation parameters are plain JavaScript objects holding data. An object is modelled
  as an association list with distinct keys, listed in the order in which \<open>Object.keys\<close>
  enumerates them (insertion order; the keys of a parameter object are taken not to be
  array indices, which JavaScript would enumerate first). \<open>JNum\<close> stands for an
  integer-valued number in the range where JavaScript prints it in plain decimal notation.
\<close>

datatype jsval =
    JUndefined
  | JNull
  | JBool bool
  | JNum int
  | JStr string
  | JObj "(string \<times> jsval) list"

type_synonym params = "(string \<times> jsval) list"

text \<open>
  Every plain object inherits the members of \<open>Object.prototype\<close>, so a property read
  with one of these names finds a member (a function, or for \<open>__proto__\<close> the prototype
  itself) where the object has no property of its own. A value in a field of the container
  is data or such a member.
\<close>

definition Object_prototype :: "string list" where
  "Object_prototype =
     [''constructor'', ''__defineGetter__'', ''__defineSetter__'', ''hasOwnProperty'',
      ''__lookupGetter__'', ''__lookupSetter__'', ''isPrototypeOf'', ''propertyIsEnumerable'',
      ''toString'', ''valueOf'', ''__proto__'', ''toLocaleString'']"

datatype dyn = Data jsval | Member string

abbreviation Str :: "string \<Rightarrow> dyn" where
  "Str s \<equiv> Data (JStr s)"

text \<open>\<open>obj[key]\<close> for a key the object has: the value stored, \<open>undefined\<close> when there is none.\<close>

definition js_get :: "params \<Rightarrow> string \<Rightarrow> jsval" where
  "js_get obj key = (case map_of obj key of Some v \<Rightarrow> v | None \<Rightarrow> JUndefined)"

text \<open>
  Storing one property: an existing key keeps its place and takes the new value, a new
  key is appended.
\<close>

fun js_put :: "string \<Rightarrow> jsval \<Rightarrow> params \<Rightarrow> params" where
  "js_put key v [] = [(key, v)]"
| "js_put key v ((k, w) # rest) =
     (if k = key then (k, v) # rest else (k, w) # js_put key v rest)"

fun decimal :: "nat \<Rightarrow> string" where
  "decimal n =
     (if n < 10 then [''0123456789'' ! n]
      else decimal (n div 10) @ [''0123456789'' ! (n mod 10)])"

declare decimal.simps [simp del]

text \<open>
  The properties that a spread \<open>...x\<close> copies from a value: those of an object, the
  characters of a string under their indices, nothing from any other value.
\<close>

fun own_enumerable :: "dyn \<Rightarrow> params" where
  "own_enumerable (Data (JObj props)) = props"
| "own_enumerable (Data (JStr s)) = zip (map decimal [0..<length s]) (map (\<lambda>c. JStr [c]) s)"
| "own_enumerable other = []"

text \<open>
  The object spread \<open>{ ...a, ...b }\<close>: the properties copied from \<open>a\<close>, then those of \<open>b\<close>
  stored over them one by one.
\<close>

definition spread :: "dyn \<Rightarrow> params \<Rightarrow> params" where
  "spread a b =
     fold (\<lambda>(k, v) acc. js_put k v acc) b
       (fold (\<lambda>(k, v) acc. js_put k v acc) (own_enumerable a) [])"

text \<open>
  The abstract operations \<open>ToString\<close> and \<open>ToBoolean\<close>. A member of \<open>Object.prototype\<close>
  prints as \<open>[object Object]\<close> (the prototype itself) or as the text of a built-in
  function, here in the layout that V8 and JavaScriptCore use.
\<close>

fun ToString :: "dyn \<Rightarrow> string" where
  "ToString (Data JUndefined) = ''undefined''"
| "ToString (Data JNull) = ''null''"
| "ToString (Data (JBool b)) = (if b then ''true'' else ''false'')"
| "ToString (Data (JNum n)) =
     (if n < 0 then CHR ''-'' # decimal (nat (- n)) else decimal (nat n))"
| "ToString (Data (JStr s)) = s"
| "ToString (Data (JObj props)) = ''[object Object]''"
| "ToString (Member m) =
     (if m = ''__proto__'' then ''[object Object]''
      else ''function '' @ (if m = ''constructor'' then ''Object'' else m)
           @ ''() { [native code] }'')"

fun ToBoolean :: "dyn \<Rightarrow> bool" where
  "ToBoolean (Data JUndefined) = False"
| "ToBoolean (Data JNull) = False"
| "ToBoolean (Data (JBool b)) = b"
| "ToBoolean (Data (JNum n)) = (n \<noteq> 0)"
| "ToBoolean (Data (JStr s)) = (s \<noteq> [])"
| "ToBoolean (Data (JObj props)) = True"
| "ToBoolean (Member m) = True"

text \<open>
  \<open>table[key]\<close> on one of the constant tables of the source, which are plain objects: the
  entry the table has, else the member inherited under that name, else \<open>undefined\<close>.
\<close>

datatype 'a found = Own 'a | Inherited string | Absent

definition lookup :: "(string \<times> 'a) list \<Rightarrow> string \<Rightarrow> 'a found" where
  "lookup table key =
     (case map_of table key of
        Some v \<Rightarrow> Own v
      | None \<Rightarrow> if key \<in> set Object_prototype then Inherited key else Absent)"

text \<open>
  \<open>find_sub pat s\<close> locates the leftmost occurrence of \<open>pat\<close> in \<open>s\<close> and returns the
  text before it and the text after it.
\<close>

fun find_sub :: "string \<Rightarrow> string \<Rightarrow> (string \<times> string) option" where
  "find_sub pat [] = (if pat = [] then Some ([], []) else None)"
| "find_sub pat (c # cs) =
     (if take (length pat) (c # cs) = pat then Some ([], drop (length pat) (c # cs))
      else (case find_sub pat cs of
              None \<Rightarrow> None
            | Some (pre, post) \<Rightarrow> Some (c # pre, post)))"

text \<open>
  The replacement text of \<open>String.prototype.replace\<close> is not literal: \<open>$$\<close> stands for a
  dollar sign, \<open>$&\<close> for the matched text, \<open>$\<close> followed by a backtick for the text
  before the match and \<open>$\<close> followed by an apostrophe for the text after it. With a
  string pattern there are no capture groups, so every other character is copied.
\<close>

fun GetSubstitution :: "string \<Rightarrow> string \<Rightarrow> string \<Rightarrow> string \<Rightarrow> string" where
  "GetSubstitution matched pre post [] = []"
| "GetSubstitution matched pre post [c] = [c]"
| "GetSubstitution matched pre post (c # d # r) =
     (if c = CHR ''$'' \<and> d = CHR ''$'' then CHR ''$'' # GetSubstitution matched pre post r
      else if c = CHR ''$'' \<and> d = CHR ''&'' then matched @ GetSubstitution matched pre post r
      else if c = CHR ''$'' \<and> d = CHR 0x60 then pre @ GetSubstitution matched pre post r
      else if c = CHR ''$'' \<and> d = CHR 0x27 then post @ GetSubstitution matched pre post r
      else c # GetSubstitution matched pre post (d # r))"

text \<open>\<open>s.replace(pat, rep)\<close> with a string pattern: only the first occurrence is replaced.\<close>

definition js_replace :: "string \<Rightarrow> string \<Rightarrow> string \<Rightarrow> string" where
  "js_replace s pat rep =
     (case find_sub pat s of
        None \<Rightarrow> s
      | Some (pre, post) \<Rightarrow> pre @ GetSubstitution pat pre post rep @ post)"

text \<open>\<open>s.split(d)\<close> for a one-character separator; the empty string splits into \<open>['''']\<close>.\<close>

fun split :: "char \<Rightarrow> string \<Rightarrow> string list" where
  "split d [] = [[]]"
| "split d (c # cs) =
     (if c = d then [] # split d cs
      else (case split d cs of
              [] \<Rightarrow> [[c]]
            | w # ws \<Rightarrow> (c # w) # ws))"

text \<open>\<open>toLowerCase\<close> on ASCII text.\<close>

definition toLowerCase :: "string \<Rightarrow> string" where
  "toLowerCase s =
     map (\<lambda>c. case map_of (zip ''ABCDEFGHIJKLMNOPQRSTUVWXYZ'' ''abcdefghijklmnopqrstuvwxyz'') c of
                Some l \<Rightarrow> l
              | None \<Rightarrow> c) s"

text \<open>
  A class token handed to \<open>classList.add\<close> must not contain ASCII whitespace (tab, line
  feed, form feed, carriage return, space).
\<close>

definition has_whitespace :: "string \<Rightarrow> bool" where
  "has_whitespace s =
     list_ex (\<lambda>c. c = CHR 0x09 \<or> c = CHR 0x0A \<or> c = CHR 0x0C \<or> c = CHR 0x0D \<or> c = CHR 0x20) s"

text \<open>The exceptions that the modelled code can raise.\<close>

datatype js_error = TypeError | DataCloneError | InvalidCharacterError

section \<open>Navigation constants\<close>

definition ROUTES :: "string list" where
  "ROUTES = [''Welcome'', ''Home'', ''RecipeDetail'', ''MyFood'',
             ''CustomRecipesScreen'', ''RecipesFormScreen'', ''FavoriteScreen'']"

text \<open>Of \<open>SCREEN_CONFIG\<close> the navigation container reads the animation of each screen.\<close>

definition SCREEN_CONFIG :: "(string \<times> string) list" where
  "SCREEN_CONFIG =
     [(''Welcome'', ''fade''),
      (''Home'', ''slide_from_right''),
      (''RecipeDetail'', ''slide_from_right''),
      (''MyFood'', ''slide_from_bottom''),
      (''CustomRecipesScreen'', ''slide_from_right''),
      (''RecipesFormScreen'', ''slide_from_bottom''),
      (''FavoriteScreen'', ''slide_from_right'')]"

definition DEEP_LINKS :: "(string \<times> string) list" where
  "DEEP_LINKS =
     [(''Welcome'', ''/welcome''),
      (''Home'', ''/home''),
      (''RecipeDetail'', ''/recipe/:id''),
      (''MyFood'', ''/my-recipes''),
      (''CustomRecipesScreen'', ''/custom-recipes''),
      (''RecipesFormScreen'', ''/add-recipe''),
      (''FavoriteScreen'', ''/favorites'')]"

section \<open>NavigationHelpers\<close>

definition isValidRoute :: "string \<Rightarrow> bool" where
  "isValidRoute routeName = (routeName \<in> set ROUTES)"

text \<open>
  \<open>getAnimation\<close> returns \<open>config.animation\<close> when \<open>SCREEN_CONFIG[routeName]\<close> is truthy; an
  inherited member has no such property, so the result is then \<open>undefined\<close> (\<open>None\<close>).
\<close>

definition getAnimation :: "string \<Rightarrow> string option" where
  "getAnimation routeName =
     (case lookup SCREEN_CONFIG routeName of
        Own animation \<Rightarrow> Some animation
      | Inherited m \<Rightarrow> None
      | Absent \<Rightarrow> Some ''slide_from_right'')"

text \<open>
  \<open>getDeepLink\<close> starts from \<open>DEEP_LINKS[routeName] || '/'\<close> and replaces \<open>:key\<close> by the
  value for every key of the parameters. Where the table lookup finds an inherited
  member, \<open>link.replace\<close> is not a function: the first replacement throws, and without
  parameters the member itself is returned.
\<close>

definition substitute :: "params \<Rightarrow> string \<Rightarrow> string" where
  "substitute params template =
     fold (\<lambda>key link. js_replace link (CHR '':'' # key) (ToString (Data (js_get params key))))
       (map fst params) template"

definition getDeepLink :: "string \<Rightarrow> params \<Rightarrow> js_error + dyn" where
  "getDeepLink routeName params =
     (case lookup DEEP_LINKS routeName of
        Own link \<Rightarrow> Inr (Str (substitute params link))
      | Inherited m \<Rightarrow> if params = [] then Inr (Member m) else Inl TypeError
      | Absent \<Rightarrow> Inr (Str (substitute params ''/'')))"

definition parseDeepLink :: "string \<Rightarrow> string \<times> params" where
  "parseDeepLink path =
     (let segments = filter (\<lambda>s. s \<noteq> []) (split CHR ''/'' path) in
      case segments of
        [] \<Rightarrow> (''Home'', [])
      | seg0 # rest \<Rightarrow>
          if seg0 = ''welcome'' then (''Welcome'', [])
          else if seg0 = ''home'' then (''Home'', [])
          else if seg0 = ''recipe'' then
            (''RecipeDetail'',
             [(''id'', (case rest of [] \<Rightarrow> JUndefined | seg1 # _ \<Rightarrow> JStr seg1))])
          else if seg0 = ''my-recipes'' then (''MyFood'', [])
          else if seg0 = ''custom-recipes'' then (''CustomRecipesScreen'', [])
          else if seg0 = ''add-recipe'' then (''RecipesFormScreen'', [])
          else if seg0 = ''favorites'' then (''FavoriteScreen'', [])
          else (''Home'', []))"

section \<open>State of the navigation container\<close>

text \<open>The four event types of \<open>NAVIGATION_EVENTS\<close>.\<close>

datatype channel = FOCUS | BLUR | STATE | BEFORE_REMOVE

text \<open>
  A history entry \<open>{ screen, params }\<close> is a pair. The history is a JavaScript array: a
  slot holds an entry or is a hole (\<open>None\<close>), which reads as \<open>undefined\<close>.
\<close>

type_synonym entry = "dyn \<times> params"
type_synonym history = "entry option list"

text \<open>The objects handed to event listeners.\<close>

datatype payload =
    Action string string params
  | Target dyn
  | StateData int history

text \<open>
  A listener is a function object: \<open>ident\<close> is its identity, \<open>react\<close> says whether a call
  returns or throws, given the event data and what \<open>getState()\<close> shows at that moment.
  Listeners observe: they do not call back into the container.
\<close>

datatype reaction = Returns | Throws string

record listener =
  ident :: nat
  react :: "payload \<Rightarrow> int \<times> history \<Rightarrow> reaction"

text \<open>Console messages, one constructor for each message of the source.\<close>

datatype message =
    Initializing
  | Initialized
  | Features
  | Navigating string params
  | RouteNotFound string
  | NavigationBlocked
  | StateUpdated int history
  | GoingBack dyn
  | CannotGoBack
  | Replacing string params
  | Resetting string
  | ScreenNotFound dyn
  | NoRenderer dyn
  | Rendering string
  | RenderingRecipe jsval
  | NoRecipeData
  | ListenerError string

text \<open>
  What the container does to its environment, in the order in which it happens: console
  output; calls of listeners, with the state they can observe; the steps of rendering
  (hiding every screen, adding the transition classes to the body, mounting a screen
  component with the arguments it is given, setting the screen class of the body); the
  calls of the browser's history API and the page title; an exception that escapes a call.
\<close>

datatype effect =
    ConsoleLog message
  | ConsoleError message
  | Call channel nat payload "int \<times> history"
  | HideAllScreens
  | Transition string
  | Mount string params
  | ScreenClass string
  | PushState entry dyn
  | ReplaceState entry dyn
  | SetTitle dyn
  | Uncaught js_error

text \<open>
  \<open>screenParams\<close> is a plain object whose keys are chosen by callers. Besides its own
  properties it has a prototype, which is \<open>Object.prototype\<close> (\<open>None\<close>) until an assignment
  to the key \<open>__proto__\<close> replaces it by the assigned object.
\<close>

record store =
  own_props :: "string \<Rightarrow> params option"
  proto :: "params option"

definition empty_store :: store where
  "empty_store = \<lparr>own_props = Map.empty, proto = None\<rparr>"

definition store_get :: "store \<Rightarrow> string \<Rightarrow> dyn" where
  "store_get st key =
     (case own_props st key of
        Some obj \<Rightarrow> Data (JObj obj)
      | None \<Rightarrow>
         (case proto st of
            Some q \<Rightarrow>
              (case map_of q key of
                 Some v \<Rightarrow> Data v
               | None \<Rightarrow>
                   if key = ''__proto__'' then Data (JObj q)
                   else if key \<in> set Object_prototype then Member key
                   else Data JUndefined)
          | None \<Rightarrow> if key \<in> set Object_prototype then Member key else Data JUndefined))"

text \<open>
  \<open>store[key] = obj\<close>: an ordinary assignment creates or overwrites a property of the
  store itself. Only for the key \<open>__proto__\<close>, when neither the store nor its prototype
  has a property of that name, the inherited setter runs and makes \<open>obj\<close> the prototype.
\<close>

definition store_set :: "store \<Rightarrow> string \<Rightarrow> params \<Rightarrow> store" where
  "store_set st key obj =
     (if key = ''__proto__'' \<and> own_props st key = None
         \<and> (case proto st of None \<Rightarrow> True | Some q \<Rightarrow> map_of q key = None)
      then st\<lparr>proto := Some obj\<rparr>
      else st\<lparr>own_props := (own_props st)(key \<mapsto> obj)\<rparr>)"

record nav =
  navigationState :: "int \<times> history"
  currentScreen :: dyn
  screenParams :: store
  listeners :: "channel \<Rightarrow> listener list"
  animationInProgress :: bool
  pendingTimers :: nat
  navigationHistory :: history
  historyIndex :: int
  effects :: "effect list"

text \<open>
  A method call returns normally with the new state (\<open>Inr\<close>), or throws (\<open>Inl\<close>) and leaves
  the container in the state reached when the exception was raised.
\<close>

type_synonym outcome = "(js_error \<times> nav) + nav"

section \<open>Array primitives\<close>

text \<open>\<open>arr.slice(0, end)\<close>; a negative \<open>end\<close> counts from the end of the array.\<close>

definition slice0 :: "'a list \<Rightarrow> int \<Rightarrow> 'a list" where
  "slice0 arr e = (if e < 0 then take (nat (int (length arr) + e)) arr else take (nat e) arr)"

text \<open>\<open>arr[i]\<close>: \<open>undefined\<close> outside the array and at a hole.\<close>

definition js_index :: "'a option list \<Rightarrow> int \<Rightarrow> 'a option" where
  "js_index arr i = (if 0 \<le> i \<and> nat i < length arr then arr ! nat i else None)"

text \<open>
  \<open>arr[i] = v\<close>: inside the array the slot is overwritten; beyond its end the array grows
  and the slots in between are holes; a negative \<open>i\<close> names an ordinary property and
  leaves the elements alone.
\<close>

definition js_set :: "'a option list \<Rightarrow> int \<Rightarrow> 'a \<Rightarrow> 'a option list" where
  "js_set arr i v =
     (if i < 0 then arr
      else if nat i < length arr then arr[nat i := Some v]
      else arr @ replicate (nat i - length arr) None @ [Some v])"

section \<open>Methods of WebNavigationContainer\<close>

definition doing :: "effect list \<Rightarrow> nav \<Rightarrow> nav" where
  "doing es s = s\<lparr>effects := effects s @ es\<rparr>"

definition console_log :: "message \<Rightarrow> nav \<Rightarrow> nav" where
  "console_log m s = doing [ConsoleLog m] s"

definition console_error :: "message \<Rightarrow> nav \<Rightarrow> nav" where
  "console_error m s = doing [ConsoleError m] s"

definition canGoBack :: "nav \<Rightarrow> bool" where
  "canGoBack s = (historyIndex s > 0)"

text \<open>
  \<open>getCurrentRoute\<close> returns the current screen and \<open>screenParams[currentScreen] || {}\<close>.
\<close>

definition getCurrentRoute :: "nav \<Rightarrow> dyn \<times> dyn" where
  "getCurrentRoute s =
     (let stored = store_get (screenParams s) (ToString (currentScreen s))
      in (currentScreen s, if ToBoolean stored then stored else Data (JObj [])))"

text \<open>
  \<open>getState\<close> maps every entry \<open>h\<close> to \<open>{ name: h.screen, params: h.params }\<close>, which is the
  same pair; \<open>map\<close> keeps holes.
\<close>

definition getState :: "nav \<Rightarrow> int \<times> history" where
  "getState s = (historyIndex s, navigationHistory s)"

text \<open>
  The loop of \<open>emitNavigationEvent\<close>: every listener is called inside its own
  \<open>try\<close>/\<open>catch\<close>, and a caught exception is written to the console.
\<close>

fun notify :: "channel \<Rightarrow> payload \<Rightarrow> int \<times> history \<Rightarrow> listener list \<Rightarrow> effect list" where
  "notify eventType data seen [] = []"
| "notify eventType data seen (callback # rest) =
     (case react callback data seen of
        Returns \<Rightarrow> [Call eventType (ident callback) data seen]
      | Throws err \<Rightarrow>
          [Call eventType (ident callback) data seen, ConsoleError (ListenerError err)])
     @ notify eventType data seen rest"

definition emitNavigationEvent :: "channel \<Rightarrow> payload \<Rightarrow> nav \<Rightarrow> nav" where
  "emitNavigationEvent eventType data s =
     doing (notify eventType data (getState s) (listeners s eventType)) s"

definition addListener :: "channel \<Rightarrow> listener \<Rightarrow> nav \<Rightarrow> nav" where
  "addListener eventType callback s =
     s\<lparr>listeners := (listeners s)(eventType := listeners s eventType @ [callback])\<rparr>"

definition removeListener :: "channel \<Rightarrow> listener \<Rightarrow> nav \<Rightarrow> nav" where
  "removeListener eventType callback s =
     s\<lparr>listeners := (listeners s)
        (eventType := filter (\<lambda>cb. ident cb \<noteq> ident callback) (listeners s eventType))\<rparr>"

definition addToHistory :: "dyn \<Rightarrow> params \<Rightarrow> nav \<Rightarrow> nav" where
  "addToHistory screenName params s =
     (let h = slice0 (navigationHistory s) (historyIndex s + 1) @ [Some (screenName, params)]
      in s\<lparr>navigationHistory := h, historyIndex := int (length h) - 1\<rparr>)"

text \<open>
  The \<open>switch\<close> of \<open>renderScreenWithAnimation\<close> and the renderers it calls: what they do,
  and the exception they end with, if any. The screen
  components that the sources define for the web with the members used here
  (\<open>WelcomeScreen\<close>, \<open>HomeScreen\<close>, \<open>RecipeDetailScreen.init\<close>, \<open>FavoriteScreen.init\<close>) are
  collaborators whose calls return. \<open>MyRecipeScreen\<close> and \<open>CustomRecipesScreen\<close> exist
  in the sources only as function components without a member \<open>init\<close>, so the calls
  \<open>MyRecipeScreen.init()\<close> and \<open>CustomRecipesScreen.init()\<close> throw a \<open>TypeError\<close> (in a
  page that does not load these components at all, a \<open>ReferenceError\<close> at the same
  point). Of the two definitions of \<open>renderRecipesFormScreen\<close> in the class body the later
  one is in force.
\<close>

definition js_prop :: "jsval \<Rightarrow> string \<Rightarrow> jsval" where
  "js_prop v key = (case v of JObj props \<Rightarrow> js_get props key | other \<Rightarrow> JUndefined)"

definition renderScreen :: "dyn \<Rightarrow> params \<Rightarrow> effect list \<times> js_error option" where
  "renderScreen screenName params =
     (if screenName = Str ''Welcome'' then ([Mount ''WelcomeScreen'' []], None)
      else if screenName = Str ''Home'' then ([Mount ''HomeScreen'' []], None)
      else if screenName = Str ''RecipeDetail'' then
        (let recipe = js_get params ''recipe'' in
         if \<not> ToBoolean (Data recipe) then ([ConsoleError NoRecipeData], None)
         else ([ConsoleLog (RenderingRecipe (js_prop recipe ''recipeName'')), HideAllScreens,
                Mount ''RecipeDetailScreen'' [(''recipe'', recipe)]], None))
      else if screenName = Str ''MyFood'' then
        ([ConsoleLog (Rendering ''MyRecipeScreen''), HideAllScreens], Some TypeError)
      else if screenName = Str ''CustomRecipesScreen'' then
        ([ConsoleLog (Rendering ''CustomRecipesScreen''), HideAllScreens], Some TypeError)
      else if screenName = Str ''RecipesFormScreen'' then
        ([Mount ''RecipesFormScreen'' params], None)
      else if screenName = Str ''FavoriteScreen'' then
        ([ConsoleLog (Rendering ''FavoriteScreen''), HideAllScreens, Mount ''FavoriteScreen'' []],
         None)
      else ([ConsoleError (NoRenderer screenName)], None))"

text \<open>
  \<open>updateBodyClasses\<close> calls \<open>screenName.toLowerCase()\<close>, which only a string has, and adds
  the class \<open>screen-\<close> followed by the lowered name.
\<close>

definition updateBodyClasses :: "dyn \<Rightarrow> string \<Rightarrow> nav \<Rightarrow> outcome" where
  "updateBodyClasses screenName animation s =
     (case screenName of
        Data (JStr name) \<Rightarrow>
          if has_whitespace name then Inl (InvalidCharacterError, s)
          else Inr (doing [ScreenClass (''screen-'' @ toLowerCase name)] s)
      | other \<Rightarrow> Inl (TypeError, s))"

text \<open>
  \<open>renderScreenWithAnimation\<close> sets the in-flight flag and hides every screen. For a
  screen without configuration it reports the error and clears the flag at once.
  Otherwise it adds the transition classes (which throws for an animation name with
  whitespace), renders the screen, updates the body classes and starts the timer that
  clears the flag 300 ms later. An exception on the way leaves the flag set and no timer
  started.
\<close>

definition renderScreenWithAnimation :: "dyn \<Rightarrow> params \<Rightarrow> string \<Rightarrow> nav \<Rightarrow> outcome" where
  "renderScreenWithAnimation screenName params animation s0 =
     (let s = doing [HideAllScreens] (s0\<lparr>animationInProgress := True\<rparr>) in
      case lookup SCREEN_CONFIG (ToString screenName) of
        Absent \<Rightarrow>
          Inr ((console_error (ScreenNotFound screenName) s)\<lparr>animationInProgress := False\<rparr>)
      | found \<Rightarrow>
          if has_whitespace animation then Inl (InvalidCharacterError, s)
          else
            (case renderScreen screenName params of
               (rendered, Some e) \<Rightarrow> Inl (e, doing (Transition animation # rendered) s)
             | (rendered, None) \<Rightarrow>
                 (case updateBodyClasses screenName animation
                         (doing (Transition animation # rendered) s) of
                    Inl thrown \<Rightarrow> Inl thrown
                  | Inr s \<Rightarrow> Inr (s\<lparr>pendingTimers := pendingTimers s + 1\<rparr>))))"

text \<open>
  One of the started timers fires: the in-flight flag is cleared. Without a started timer
  nothing happens.
\<close>

definition animationTimeout :: "nav \<Rightarrow> nav" where
  "animationTimeout s =
     (if pendingTimers s > 0
      then s\<lparr>pendingTimers := pendingTimers s - 1, animationInProgress := False\<rparr>
      else s)"

definition page_titles :: "(string \<times> string) list" where
  "page_titles =
     [(''Welcome'', ''Welcome - Foodie''),
      (''Home'', ''Home - Foodie''),
      (''RecipeDetail'', ''Recipe Details - Foodie''),
      (''MyFood'', ''My Recipes - Foodie''),
      (''CustomRecipesScreen'', ''Custom Recipes - Foodie''),
      (''RecipesFormScreen'', ''Add Recipe - Foodie''),
      (''FavoriteScreen'', ''Favorites - Foodie'')]"

definition page_title :: "dyn \<Rightarrow> dyn" where
  "page_title screenName =
     (case lookup page_titles (ToString screenName) of
        Own title \<Rightarrow> Str title
      | Inherited m \<Rightarrow> Member m
      | Absent \<Rightarrow> Str ''Foodie - Recipe App'')"

text \<open>
  The state object passed to \<open>history.pushState\<close> is cloned, and a function cannot be
  cloned. Of the inherited members every one but the prototype object is a function.
\<close>

fun callable :: "dyn \<Rightarrow> bool" where
  "callable (Member m) = (m \<noteq> ''__proto__'')"
| "callable (Data v) = False"

definition updateBrowserHistory :: "dyn \<Rightarrow> params \<Rightarrow> nav \<Rightarrow> outcome" where
  "updateBrowserHistory screenName params s =
     (case getDeepLink (ToString screenName) params of
        Inl e \<Rightarrow> Inl (e, s)
      | Inr url \<Rightarrow>
          if callable screenName then Inl (DataCloneError, s)
          else Inr (doing [PushState (screenName, params) url,
                           SetTitle (page_title screenName)] s))"

text \<open>
  \<open>NavigationState.emit\<close> stores the state and calls the listeners of the state object;
  the container registers exactly one, which logs the state.
\<close>

definition NavigationState_emit :: "int \<times> history \<Rightarrow> nav \<Rightarrow> nav" where
  "NavigationState_emit newState s =
     console_log (StateUpdated (fst newState) (snd newState)) (s\<lparr>navigationState := newState\<rparr>)"

text \<open>
  \<open>navigate(screenName, params, options)\<close>; of \<open>options\<close> only \<open>options.animation\<close> is read
  (\<open>None\<close> when absent), and an empty string there is falsy. When no animation results,
  the default of the parameter of \<open>renderScreenWithAnimation\<close> applies.
\<close>

definition chosen_animation :: "string \<Rightarrow> string option \<Rightarrow> string" where
  "chosen_animation screenName options_animation =
     (case (case options_animation of
              None \<Rightarrow> getAnimation screenName
            | Some a \<Rightarrow> if a = [] then getAnimation screenName else Some a) of
        None \<Rightarrow> ''slide_from_right''
      | Some a \<Rightarrow> a)"

definition navigate :: "string \<Rightarrow> params \<Rightarrow> string option \<Rightarrow> nav \<Rightarrow> outcome" where
  "navigate screenName params options_animation s0 =
     (let s = console_log (Navigating screenName params) s0 in
      if \<not> isValidRoute screenName then Inr (console_error (RouteNotFound screenName) s)
      else if animationInProgress s then Inr (console_log NavigationBlocked s)
      else
        let s = emitNavigationEvent BEFORE_REMOVE (Action ''NAVIGATE'' screenName params) s;
            s = s\<lparr>screenParams := store_set (screenParams s) screenName
                     (spread (store_get (screenParams s) screenName) params)\<rparr>;
            s = addToHistory (Str screenName) params s;
            newState = (int (length (navigationHistory s)) - 1, navigationHistory s);
            s = NavigationState_emit newState s;
            animation = chosen_animation screenName options_animation;
            previousScreen = currentScreen s;
            s = s\<lparr>currentScreen := Str screenName\<rparr>;
            s = (if ToBoolean previousScreen
                 then emitNavigationEvent BLUR (Target previousScreen) s else s)
        in case renderScreenWithAnimation (Str screenName) params animation s of
             Inl thrown \<Rightarrow> Inl thrown
           | Inr s \<Rightarrow>
               (case updateBrowserHistory (Str screenName) params
                       (emitNavigationEvent FOCUS (Target (Str screenName)) s) of
                  Inl thrown \<Rightarrow> Inl thrown
                | Inr s \<Rightarrow>
                    Inr (emitNavigationEvent STATE
                           (StateData (fst newState) (snd newState)) s)))"

text \<open>
  \<open>goBack\<close> reads \<open>previousEntry.screen\<close>; were the slot \<open>undefined\<close>, this would throw a
  \<open>TypeError\<close> after the index has been decremented.
\<close>

definition goBack :: "nav \<Rightarrow> outcome" where
  "goBack s0 =
     (if canGoBack s0 then
        let s = s0\<lparr>historyIndex := historyIndex s0 - 1\<rparr> in
        (case js_index (navigationHistory s) (historyIndex s) of
           None \<Rightarrow> Inl (TypeError, s)
         | Some (previousScreen, previousParams) \<Rightarrow>
             let s = console_log (GoingBack previousScreen) s;
                 leaving = currentScreen s;
                 s = s\<lparr>currentScreen := previousScreen\<rparr>;
                 s = emitNavigationEvent BLUR (Target leaving) s;
                 s = emitNavigationEvent FOCUS (Target previousScreen) s
             in case renderScreenWithAnimation previousScreen previousParams
                       ''slide_from_left'' s of
                  Inl thrown \<Rightarrow> Inl thrown
                | Inr s \<Rightarrow> updateBrowserHistory previousScreen previousParams s)
      else Inr (console_log CannotGoBack s0))"

text \<open>
  \<open>replace\<close> evaluates \<open>getDeepLink\<close> as an argument of \<open>history.replaceState\<close>; the state
  it passes holds a string and data, which can be cloned.
\<close>

definition replace :: "string \<Rightarrow> params \<Rightarrow> nav \<Rightarrow> outcome" where
  "replace screenName params s0 =
     (let s = console_log (Replacing screenName params) s0;
          s = emitNavigationEvent BEFORE_REMOVE (Action ''REPLACE'' screenName params) s;
          s = s\<lparr>screenParams := store_set (screenParams s) screenName
                   (spread (store_get (screenParams s) screenName) params)\<rparr>;
          s = (if length (navigationHistory s) > 0
               then s\<lparr>navigationHistory :=
                        js_set (navigationHistory s) (historyIndex s) (Str screenName, params)\<rparr>
               else addToHistory (Str screenName) params s);
          previousScreen = currentScreen s;
          s = s\<lparr>currentScreen := Str screenName\<rparr>;
          s = emitNavigationEvent BLUR (Target previousScreen) s
      in case renderScreenWithAnimation (Str screenName) params ''fade'' s of
           Inl thrown \<Rightarrow> Inl thrown
         | Inr s \<Rightarrow>
             let s = emitNavigationEvent FOCUS (Target (Str screenName)) s in
             (case getDeepLink screenName params of
                Inl e \<Rightarrow> Inl (e, s)
              | Inr url \<Rightarrow> Inr (doing [ReplaceState (Str screenName, params) url] s)))"

definition reset :: "string \<Rightarrow> params \<Rightarrow> nav \<Rightarrow> outcome" where
  "reset screenName params s0 =
     (let s = console_log (Resetting screenName) s0;
          s = s\<lparr>navigationHistory := [], historyIndex := - 1, screenParams := empty_store\<rparr>;
          s = addToHistory (Str screenName) params s;
          s = s\<lparr>currentScreen := Str screenName\<rparr>
      in case renderScreenWithAnimation (Str screenName) params ''fade'' s of
           Inl thrown \<Rightarrow> Inl thrown
         | Inr s \<Rightarrow> Inr (emitNavigationEvent FOCUS (Target (Str screenName)) s))"

section \<open>Construction\<close>

definition routeMap :: "(string \<times> string) list" where
  "routeMap =
     [(''welcome'', ''Welcome''),
      (''home'', ''Home''),
      (''recipe'', ''RecipeDetail''),
      (''my-recipes'', ''MyFood''),
      (''custom-recipes'', ''CustomRecipesScreen''),
      (''add-recipe'', ''RecipesFormScreen''),
      (''favorites'', ''FavoriteScreen'')]"

text \<open>
  \<open>findScreenByRoute\<close> returns \<open>routeMap[route.toLowerCase()] || null\<close>: a screen name, an
  inherited member (for \<open>constructor\<close> and \<open>__proto__\<close>, the inherited names in lower
  case), or \<open>null\<close> (\<open>None\<close>).
\<close>

definition findScreenByRoute :: "string \<Rightarrow> dyn option" where
  "findScreenByRoute route =
     (case lookup routeMap (toLowerCase route) of
        Own screenName \<Rightarrow> Some (Str screenName)
      | Inherited m \<Rightarrow> Some (Member m)
      | Absent \<Rightarrow> None)"

text \<open>
  The class body defines \<open>handleInitialRoute\<close> twice; the later definition, which reads
  \<open>window.location.hash\<close>, is the one the class has.
\<close>

definition handleInitialRoute :: "string \<Rightarrow> nav \<Rightarrow> nav" where
  "handleInitialRoute hash s =
     (if length hash > 1 then
        (case findScreenByRoute (drop 2 hash) of
           None \<Rightarrow> s
         | Some screenName \<Rightarrow> addToHistory screenName [] (s\<lparr>currentScreen := screenName\<rparr>))
      else s)"

text \<open>The listener that \<open>initializePerformanceMonitoring\<close> subscribes to state changes.\<close>

definition performanceMonitor :: listener where
  "performanceMonitor = \<lparr>ident = 0, react = (\<lambda>data seen. Returns)\<rparr>"

definition init :: "string \<Rightarrow> nav \<Rightarrow> outcome" where
  "init hash s0 =
     (let s = console_log Initializing s0;
          s = handleInitialRoute hash s;
          s = addListener STATE performanceMonitor s
      in case navigate ''Welcome'' [] None s of
           Inl thrown \<Rightarrow> Inl thrown
         | Inr s \<Rightarrow> Inr (console_log Features (console_log Initialized s)))"

text \<open>
  \<open>new WebNavigationContainer()\<close> in a window whose location has the given hash: the
  outcome of the constructor, and the container it leaves (the constructor never throws,
  see \<open>constructor_returns\<close> below).
\<close>

definition constructor :: "string \<Rightarrow> outcome" where
  "constructor hash =
     init hash
       \<lparr>navigationState = (0, [Some (Str ''Welcome'', [])]),
        currentScreen = Str ''Welcome'',
        screenParams = empty_store,
        listeners = (\<lambda>eventType. []),
        animationInProgress = False,
        pendingTimers = 0,
        navigationHistory = [],
        historyIndex = - 1,
        effects = []\<rparr>"

fun left_by :: "outcome \<Rightarrow> nav" where
  "left_by (Inr s) = s"
| "left_by (Inl (e, s)) = doing [Uncaught e] s"

definition WebNavigationContainer :: "string \<Rightarrow> nav" where
  "WebNavigationContainer hash = left_by (constructor hash)"

section \<open>Sequences of calls\<close>

text \<open>
  What can happen to a container: a call of one of the four navigation methods, or one of
  the animation timers firing. An exception that escapes a method ends that call only; it
  is recorded and the container stays as the call left it.
\<close>

datatype call =
    Navigate string params "string option"
  | GoBack
  | Replace string params
  | Reset string params
  | AnimationTimeout

fun perform :: "call \<Rightarrow> nav \<Rightarrow> nav" where
  "perform (Navigate screenName params options_animation) s =
     left_by (navigate screenName params options_animation s)"
| "perform GoBack s = left_by (goBack s)"
| "perform (Replace screenName params) s = left_by (replace screenName params s)"
| "perform (Reset screenName params) s = left_by (reset screenName params s)"
| "perform AnimationTimeout s = animationTimeout s"

definition run :: "call list \<Rightarrow> nav \<Rightarrow> nav" where
  "run calls s = fold perform calls s"

definition stack_invariant :: "nav \<Rightarrow> bool" where
  "stack_invariant s =
     (0 \<le> historyIndex s \<and> historyIndex s < int (length (navigationHistory s))
      \<and> 1 \<le> length (navigationHistory s))"

section \<open>The methods up to the call of the renderer\<close>

text \<open>
  Two summaries of the definitions above, for use in the proofs. The first is what a call
  of \<open>renderScreenWithAnimation\<close> amounts to: \<open>rendering\<close> lists the effects it appends and
  the exception it ends with, if any, and \<open>rendered\<close> is the state it leaves (the flag is set
  unless the screen has no configuration, and a timer is started when the call returns
  after rendering); lemma \<open>render_eq\<close> shows that \<open>renderScreenWithAnimation\<close> is exactly
  that.
\<close>

definition rendering :: "dyn \<Rightarrow> params \<Rightarrow> string \<Rightarrow> effect list \<times> js_error option" where
  "rendering screenName params animation =
     (if lookup SCREEN_CONFIG (ToString screenName) = Absent
      then ([HideAllScreens, ConsoleError (ScreenNotFound screenName)], None)
      else if has_whitespace animation then ([HideAllScreens], Some InvalidCharacterError)
      else
        (case renderScreen screenName params of
           (es, Some e) \<Rightarrow> (HideAllScreens # Transition animation # es, Some e)
         | (es, None) \<Rightarrow>
             (case screenName of
                Data (JStr name) \<Rightarrow>
                  if has_whitespace name
                  then (HideAllScreens # Transition animation # es, Some InvalidCharacterError)
                  else (HideAllScreens # Transition animation # es
                        @ [ScreenClass (''screen-'' @ toLowerCase name)], None)
              | other \<Rightarrow> (HideAllScreens # Transition animation # es, Some TypeError))))"

definition rendered :: "dyn \<Rightarrow> params \<Rightarrow> string \<Rightarrow> nav \<Rightarrow> nav" where
  "rendered screenName params animation s =
     (doing (fst (rendering screenName params animation)) s)
       \<lparr>animationInProgress := lookup SCREEN_CONFIG (ToString screenName) \<noteq> Absent,
        pendingTimers :=
          (if lookup SCREEN_CONFIG (ToString screenName) \<noteq> Absent
              \<and> snd (rendering screenName params animation) = None
           then pendingTimers s + 1 else pendingTimers s)\<rparr>"

text \<open>
  The second is the state in which each method calls \<open>renderScreenWithAnimation\<close>, written
  out once; the lemmas \<open>navigate_unfold\<close>, \<open>goBack_unfold\<close>, \<open>replace_unfold\<close> and
  \<open>reset_unfold\<close> show that the methods above pass through exactly these states.
\<close>

definition navigate_prepared :: "string \<Rightarrow> params \<Rightarrow> nav \<Rightarrow> nav" where
  "navigate_prepared screenName params s0 =
     (let s = console_log (Navigating screenName params) s0;
          s = emitNavigationEvent BEFORE_REMOVE (Action ''NAVIGATE'' screenName params) s;
          s = s\<lparr>screenParams := store_set (screenParams s) screenName
                   (spread (store_get (screenParams s) screenName) params)\<rparr>;
          s = addToHistory (Str screenName) params s;
          s = NavigationState_emit
                (int (length (navigationHistory s)) - 1, navigationHistory s) s;
          previousScreen = currentScreen s;
          s = s\<lparr>currentScreen := Str screenName\<rparr>
      in if ToBoolean previousScreen
         then emitNavigationEvent BLUR (Target previousScreen) s else s)"

definition goBack_prepared :: "dyn \<Rightarrow> nav \<Rightarrow> nav" where
  "goBack_prepared previousScreen s0 =
     (let s = s0\<lparr>historyIndex := historyIndex s0 - 1\<rparr>;
          s = console_log (GoingBack previousScreen) s;
          leaving = currentScreen s;
          s = s\<lparr>currentScreen := previousScreen\<rparr>;
          s = emitNavigationEvent BLUR (Target leaving) s
      in emitNavigationEvent FOCUS (Target previousScreen) s)"

definition replace_prepared :: "string \<Rightarrow> params \<Rightarrow> nav \<Rightarrow> nav" where
  "replace_prepared screenName params s0 =
     (let s = console_log (Replacing screenName params) s0;
          s = emitNavigationEvent BEFORE_REMOVE (Action ''REPLACE'' screenName params) s;
          s = s\<lparr>screenParams := store_set (screenParams s) screenName
                   (spread (store_get (screenParams s) screenName) params)\<rparr>;
          s = (if length (navigationHistory s) > 0
               then s\<lparr>navigationHistory :=
                        js_set (navigationHistory s) (historyIndex s) (Str screenName, params)\<rparr>
               else addToHistory (Str screenName) params s);
          previousScreen = currentScreen s;
          s = s\<lparr>currentScreen := Str screenName\<rparr>
      in emitNavigationEvent BLUR (Target previousScreen) s)"

definition reset_prepared :: "string \<Rightarrow> params \<Rightarrow> nav \<Rightarrow> nav" where
  "reset_prepared screenName params s0 =
     (let s = console_log (Resetting screenName) s0;
          s = s\<lparr>navigationHistory := [], historyIndex := - 1, screenParams := empty_store\<rparr>;
          s = addToHistory (Str screenName) params s
      in s\<lparr>currentScreen := Str screenName\<rparr>)"

section \<open>Notions used in the properties\<close>

text \<open>The entries that a sequence of calls names as navigation targets.\<close>

fun targets :: "call list \<Rightarrow> entry list" where
  "targets [] = []"
| "targets (Navigate screenName params options_animation # calls) =
     (Str screenName, params) # targets calls"
| "targets (Replace screenName params # calls) = (Str screenName, params) # targets calls"
| "targets (Reset screenName params # calls) = (Str screenName, params) # targets calls"
| "targets (GoBack # calls) = targets calls"
| "targets (AnimationTimeout # calls) = targets calls"

text \<open>
  The visible course of an operation: which listener of which channel was called, and
  when the rendering of the screen began (the transition classes are added just before
  the renderer of the screen is called).
\<close>

datatype stage = Fired channel nat | Rendered

fun stages :: "effect list \<Rightarrow> stage list" where
  "stages [] = []"
| "stages (Call eventType i data seen # es) = Fired eventType i # stages es"
| "stages (Transition animation # es) = Rendered # stages es"
| "stages (e # es) = stages es"

text \<open>A listener that returns normally, and one that always throws.\<close>

definition subscriber :: "nat \<Rightarrow> listener" where
  "subscriber i = \<lparr>ident = i, react = (\<lambda>data seen. Returns)\<rparr>"

definition thrower :: "nat \<Rightarrow> listener" where
  "thrower i = \<lparr>ident = i, react = (\<lambda>data seen. Throws ''boom'')\<rparr>"


text \<open>
  The animation that the options of a \<open>navigate\<close> call name, if any, can be used as a
  class name of the body: \<open>classList.add\<close> rejects a token with whitespace.
\<close>

fun usable :: "string option \<Rightarrow> bool" where
  "usable None = True"
| "usable (Some animation) = (\<not> has_whitespace animation)"

text \<open>
  A replacement text is plain when it contains none of the patterns \<open>$$\<close>, \<open>$&\<close>,
  \<open>$\<close>-backtick and \<open>$\<close>-apostrophe.
\<close>

fun plain :: "string \<Rightarrow> bool" where
  "plain [] = True"
| "plain [c] = True"
| "plain (c # d # r) =
     (\<not> (c = CHR ''$'' \<and> (d = CHR ''$'' \<or> d = CHR ''&'' \<or> d = CHR 0x60 \<or> d = CHR 0x27))
      \<and> plain (d # r))"

text \<open>
  The parameters named by the path template of a route: none for the routes without a
  placeholder; for \<open>RecipeDetail\<close> the single parameter \<open>id\<close>, here a non-empty string
  that is one path segment and a plain replacement text.
\<close>

fun id_param :: "params \<Rightarrow> string option" where
  "id_param [(key, JStr v)] = (if key = ''id'' then Some v else None)"
| "id_param other = None"

definition template_params :: "string \<Rightarrow> params \<Rightarrow> bool" where
  "template_params routeName params =
     (if routeName = ''RecipeDetail''
      then (case id_param params of
              None \<Rightarrow> False
            | Some v \<Rightarrow> v \<noteq> [] \<and> CHR ''/'' \<notin> set v \<and> plain v)
      else params = [])"

text \<open>The calls of the browser's history API among the effects.\<close>

fun browser_calls :: "effect list \<Rightarrow> effect list" where
  "browser_calls [] = []"
| "browser_calls (PushState e url # es) = PushState e url # browser_calls es"
| "browser_calls (ReplaceState e url # es) = ReplaceState e url # browser_calls es"
| "browser_calls (e # es) = browser_calls es"

text \<open>Listener calls, and the console lines written for listeners that threw.\<close>

fun is_call :: "effect \<Rightarrow> bool" where
  "is_call (Call eventType i data seen) = True"
| "is_call e = False"

fun is_listener_error :: "effect \<Rightarrow> bool" where
  "is_listener_error (ConsoleError (ListenerError err)) = True"
| "is_listener_error e = False"

fun thrown :: "reaction \<Rightarrow> string list" where
  "thrown Returns = []"
| "thrown (Throws err) = [err]"

fun listener_errors :: "effect list \<Rightarrow> string list" where
  "listener_errors [] = []"
| "listener_errors (ConsoleError (ListenerError err) # es) = err # listener_errors es"
| "listener_errors (e # es) = listener_errors es"

text \<open>
  \<open>quiet\<close> turns a listener into one that never throws; \<open>calm\<close> does so for every
  listener of a container and drops the console lines about listeners that threw.
\<close>

definition quiet :: "listener \<Rightarrow> listener" where
  "quiet callback = callback\<lparr>react := (\<lambda>data seen. Returns)\<rparr>"

definition calm :: "nav \<Rightarrow> nav" where
  "calm s =
     s\<lparr>listeners := (\<lambda>eventType. map quiet (listeners s eventType)),
       effects := filter (\<lambda>e. \<not> is_listener_error e) (effects s)\<rparr>"

text \<open>Calls that do not touch the stored parameters of a given screen.\<close>

fun leaves :: "string \<Rightarrow> call \<Rightarrow> bool" where
  "leaves r (Navigate screenName params options_animation) = (screenName \<noteq> r)"
| "leaves r (Replace screenName params) = (screenName \<noteq> r)"
| "leaves r (Reset screenName params) = False"
| "leaves r GoBack = True"
| "leaves r AnimationTimeout = True"

text \<open>
  Two states of a running application: the constructed container once its first animation
  is over, and the same container just after a navigation to \<open>Home\<close>, while that
  animation is in flight.
\<close>

definition idle_example :: nav where
  "idle_example = animationTimeout (WebNavigationContainer [])"

definition animating_example :: nav where
  "animating_example = perform (Navigate ''Home'' [] None) idle_example"



text \<open>A container whose history is \<open>Home\<close>, \<open>RecipeDetail\<close>, \<open>FavoriteScreen\<close>.\<close>

definition three_screens :: nav where
  "three_screens =
     run [Reset ''Home'' [], AnimationTimeout,
          Navigate ''RecipeDetail'' [(''id'', JStr ''42'')] None, AnimationTimeout,
          Navigate ''FavoriteScreen'' [] None, AnimationTimeout] (WebNavigationContainer [])"

text \<open>
  A visit of \<open>RecipeDetail\<close> with the parameter \<open>id\<close>, then a \<open>reset\<close> to \<open>Home\<close>, each
  followed by the end of its animation.
\<close>

definition visited_then_reset :: nav where
  "visited_then_reset =
     run [Navigate ''RecipeDetail'' [(''id'', JStr ''42'')] None, AnimationTimeout,
          Reset ''Home'' [], AnimationTimeout] idle_example"

section \<open>Projections of the elementary steps\<close>

declare perform.simps [simp del]

lemma perform_timeout [simp]: "perform AnimationTimeout s = animationTimeout s"
  by (simp add: perform.simps)

lemma doing_sel [simp]:
  "navigationState (doing es s) = navigationState s"
  "currentScreen (doing es s) = currentScreen s"
  "screenParams (doing es s) = screenParams s"
  "listeners (doing es s) = listeners s"
  "animationInProgress (doing es s) = animationInProgress s"
  "pendingTimers (doing es s) = pendingTimers s"
  "navigationHistory (doing es s) = navigationHistory s"
  "historyIndex (doing es s) = historyIndex s"
  "effects (doing es s) = effects s @ es"
  by (simp_all add: doing_def)

lemma console_sel [simp]:
  "navigationState (console_log m s) = navigationState s"
  "currentScreen (console_log m s) = currentScreen s"
  "screenParams (console_log m s) = screenParams s"
  "listeners (console_log m s) = listeners s"
  "animationInProgress (console_log m s) = animationInProgress s"
  "pendingTimers (console_log m s) = pendingTimers s"
  "navigationHistory (console_log m s) = navigationHistory s"
  "historyIndex (console_log m s) = historyIndex s"
  "effects (console_log m s) = effects s @ [ConsoleLog m]"
  "navigationState (console_error m s) = navigationState s"
  "currentScreen (console_error m s) = currentScreen s"
  "screenParams (console_error m s) = screenParams s"
  "listeners (console_error m s) = listeners s"
  "animationInProgress (console_error m s) = animationInProgress s"
  "pendingTimers (console_error m s) = pendingTimers s"
  "navigationHistory (console_error m s) = navigationHistory s"
  "historyIndex (console_error m s) = historyIndex s"
  "effects (console_error m s) = effects s @ [ConsoleError m]"
  by (simp_all add: console_log_def console_error_def)

lemma emit_sel [simp]:
  "navigationState (emitNavigationEvent c d s) = navigationState s"
  "currentScreen (emitNavigationEvent c d s) = currentScreen s"
  "screenParams (emitNavigationEvent c d s) = screenParams s"
  "listeners (emitNavigationEvent c d s) = listeners s"
  "animationInProgress (emitNavigationEvent c d s) = animationInProgress s"
  "pendingTimers (emitNavigationEvent c d s) = pendingTimers s"
  "navigationHistory (emitNavigationEvent c d s) = navigationHistory s"
  "historyIndex (emitNavigationEvent c d s) = historyIndex s"
  "effects (emitNavigationEvent c d s) =
     effects s @ notify c d (historyIndex s, navigationHistory s) (listeners s c)"
  by (simp_all add: emitNavigationEvent_def getState_def)

lemma state_emit_sel [simp]:
  "navigationState (NavigationState_emit n s) = n"
  "currentScreen (NavigationState_emit n s) = currentScreen s"
  "screenParams (NavigationState_emit n s) = screenParams s"
  "listeners (NavigationState_emit n s) = listeners s"
  "animationInProgress (NavigationState_emit n s) = animationInProgress s"
  "pendingTimers (NavigationState_emit n s) = pendingTimers s"
  "navigationHistory (NavigationState_emit n s) = navigationHistory s"
  "historyIndex (NavigationState_emit n s) = historyIndex s"
  "effects (NavigationState_emit n s) = effects s @ [ConsoleLog (StateUpdated (fst n) (snd n))]"
  by (simp_all add: NavigationState_emit_def)

lemma addToHistory_sel [simp]:
  "navigationState (addToHistory r p s) = navigationState s"
  "currentScreen (addToHistory r p s) = currentScreen s"
  "screenParams (addToHistory r p s) = screenParams s"
  "listeners (addToHistory r p s) = listeners s"
  "animationInProgress (addToHistory r p s) = animationInProgress s"
  "pendingTimers (addToHistory r p s) = pendingTimers s"
  "navigationHistory (addToHistory r p s) =
     slice0 (navigationHistory s) (historyIndex s + 1) @ [Some (r, p)]"
  "historyIndex (addToHistory r p s) =
     int (length (slice0 (navigationHistory s) (historyIndex s + 1)))"
  "effects (addToHistory r p s) = effects s"
  by (simp_all add: addToHistory_def Let_def)

lemma timeout_sel [simp]:
  "navigationState (animationTimeout s) = navigationState s"
  "currentScreen (animationTimeout s) = currentScreen s"
  "screenParams (animationTimeout s) = screenParams s"
  "listeners (animationTimeout s) = listeners s"
  "animationInProgress (animationTimeout s) = (animationInProgress s \<and> pendingTimers s = 0)"
  "pendingTimers (animationTimeout s) = pendingTimers s - 1"
  "navigationHistory (animationTimeout s) = navigationHistory s"
  "historyIndex (animationTimeout s) = historyIndex s"
  "effects (animationTimeout s) = effects s"
  by (simp_all add: animationTimeout_def)

lemma addListener_sel [simp]:
  "navigationState (addListener c l s) = navigationState s"
  "currentScreen (addListener c l s) = currentScreen s"
  "screenParams (addListener c l s) = screenParams s"
  "listeners (addListener c l s) = (listeners s)(c := listeners s c @ [l])"
  "animationInProgress (addListener c l s) = animationInProgress s"
  "pendingTimers (addListener c l s) = pendingTimers s"
  "navigationHistory (addListener c l s) = navigationHistory s"
  "historyIndex (addListener c l s) = historyIndex s"
  "effects (addListener c l s) = effects s"
  by (simp_all add: addListener_def)

lemma left_by_sel [simp]:
  "navigationState (left_by (Inl (e, s))) = navigationState s"
  "currentScreen (left_by (Inl (e, s))) = currentScreen s"
  "screenParams (left_by (Inl (e, s))) = screenParams s"
  "listeners (left_by (Inl (e, s))) = listeners s"
  "animationInProgress (left_by (Inl (e, s))) = animationInProgress s"
  "pendingTimers (left_by (Inl (e, s))) = pendingTimers s"
  "navigationHistory (left_by (Inl (e, s))) = navigationHistory s"
  "historyIndex (left_by (Inl (e, s))) = historyIndex s"
  "effects (left_by (Inl (e, s))) = effects s @ [Uncaught e]"
  by simp_all


section \<open>The renderer\<close>

text \<open>
  \<open>renderScreenWithAnimation\<close> appends the effects listed by \<open>rendering\<close>, sets the
  in-flight flag unless the screen has no configuration, and starts a timer when it returns
  after rendering.
\<close>

lemma render_eq:
  "renderScreenWithAnimation r p a s =
     (case snd (rendering r p a) of
        Some e \<Rightarrow> Inl (e, rendered r p a s)
      | None \<Rightarrow> Inr (rendered r p a s))"
proof (cases "lookup SCREEN_CONFIG (ToString r) = Absent")
  case True
  then show ?thesis
    by (simp add: renderScreenWithAnimation_def rendering_def rendered_def Let_def
        doing_def console_error_def)
next
  case found: False
  show ?thesis
  proof (cases "has_whitespace a")
    case True
    with found show ?thesis
      by (simp add: renderScreenWithAnimation_def rendering_def rendered_def Let_def
          doing_def split: found.splits)
  next
    case False
    obtain es e where es: "renderScreen r p = (es, e)"
      by (cases "renderScreen r p")
    show ?thesis
    proof (cases e)
      case (Some x)
      with found False es show ?thesis
        by (simp add: renderScreenWithAnimation_def rendering_def rendered_def Let_def
            doing_def split: found.splits)
    next
      case None
      show ?thesis
      proof (cases r)
        case (Data v)
        with found False es None show ?thesis
          by (cases v)
             (simp_all add: renderScreenWithAnimation_def rendering_def rendered_def Let_def
               updateBodyClasses_def doing_def del: ToString.simps split: found.splits)
      next
        case (Member m)
        with found False es None show ?thesis
          by (simp add: renderScreenWithAnimation_def rendering_def rendered_def Let_def
              updateBodyClasses_def doing_def del: ToString.simps split: found.splits)
      qed
    qed
  qed
qed

lemma rendered_sel [simp]:
  "navigationState (rendered r p a s) = navigationState s"
  "currentScreen (rendered r p a s) = currentScreen s"
  "screenParams (rendered r p a s) = screenParams s"
  "listeners (rendered r p a s) = listeners s"
  "animationInProgress (rendered r p a s) = (lookup SCREEN_CONFIG (ToString r) \<noteq> Absent)"
  "pendingTimers (rendered r p a s) =
     (if lookup SCREEN_CONFIG (ToString r) \<noteq> Absent \<and> snd (rendering r p a) = None
      then pendingTimers s + 1 else pendingTimers s)"
  "navigationHistory (rendered r p a s) = navigationHistory s"
  "historyIndex (rendered r p a s) = historyIndex s"
  "effects (rendered r p a s) = effects s @ fst (rendering r p a)"
  by (simp_all add: rendered_def)

section \<open>The methods in terms of the state they render from\<close>

lemma navigate_unfold:
  "isValidRoute r \<Longrightarrow> \<not> animationInProgress s \<Longrightarrow>
   navigate r p a s =
     (case renderScreenWithAnimation (Str r) p (chosen_animation r a) (navigate_prepared r p s) of
        Inl t \<Rightarrow> Inl t
      | Inr s1 \<Rightarrow>
          (case updateBrowserHistory (Str r) p (emitNavigationEvent FOCUS (Target (Str r)) s1) of
             Inl t \<Rightarrow> Inl t
           | Inr s2 \<Rightarrow>
               Inr (emitNavigationEvent STATE
                      (StateData (historyIndex (navigate_prepared r p s))
                         (navigationHistory (navigate_prepared r p s))) s2)))"
  by (simp add: navigate_def navigate_prepared_def Let_def cong: sum.case_cong)

lemma navigate_prepared_sel [simp]:
  "navigationState (navigate_prepared r p s) =
     (int (length (slice0 (navigationHistory s) (historyIndex s + 1))),
      slice0 (navigationHistory s) (historyIndex s + 1) @ [Some (Str r, p)])"
  "currentScreen (navigate_prepared r p s) = Str r"
  "screenParams (navigate_prepared r p s) =
     store_set (screenParams s) r (spread (store_get (screenParams s) r) p)"
  "listeners (navigate_prepared r p s) = listeners s"
  "animationInProgress (navigate_prepared r p s) = animationInProgress s"
  "pendingTimers (navigate_prepared r p s) = pendingTimers s"
  "navigationHistory (navigate_prepared r p s) =
     slice0 (navigationHistory s) (historyIndex s + 1) @ [Some (Str r, p)]"
  "historyIndex (navigate_prepared r p s) =
     int (length (slice0 (navigationHistory s) (historyIndex s + 1)))"
  "effects (navigate_prepared r p s) =
     effects s
     @ ConsoleLog (Navigating r p)
     # notify BEFORE_REMOVE (Action ''NAVIGATE'' r p) (historyIndex s, navigationHistory s)
         (listeners s BEFORE_REMOVE)
     @ ConsoleLog (StateUpdated (int (length (slice0 (navigationHistory s) (historyIndex s + 1))))
                     (slice0 (navigationHistory s) (historyIndex s + 1) @ [Some (Str r, p)]))
     # (if ToBoolean (currentScreen s)
        then notify BLUR (Target (currentScreen s))
               (int (length (slice0 (navigationHistory s) (historyIndex s + 1))),
                slice0 (navigationHistory s) (historyIndex s + 1) @ [Some (Str r, p)])
               (listeners s BLUR)
        else [])"
  by (simp_all add: navigate_prepared_def Let_def)

lemma goBack_unfold:
  "goBack s =
     (if canGoBack s then
        (case js_index (navigationHistory s) (historyIndex s - 1) of
           None \<Rightarrow> Inl (TypeError, s\<lparr>historyIndex := historyIndex s - 1\<rparr>)
         | Some (screen, params) \<Rightarrow>
             (case renderScreenWithAnimation screen params ''slide_from_left''
                     (goBack_prepared screen s) of
                Inl t \<Rightarrow> Inl t
              | Inr s1 \<Rightarrow> updateBrowserHistory screen params s1))
      else Inr (console_log CannotGoBack s))"
  by (simp add: goBack_def goBack_prepared_def Let_def cong: sum.case_cong option.case_cong split: option.splits)

lemma goBack_prepared_sel [simp]:
  "navigationState (goBack_prepared r s) = navigationState s"
  "currentScreen (goBack_prepared r s) = r"
  "screenParams (goBack_prepared r s) = screenParams s"
  "listeners (goBack_prepared r s) = listeners s"
  "animationInProgress (goBack_prepared r s) = animationInProgress s"
  "pendingTimers (goBack_prepared r s) = pendingTimers s"
  "navigationHistory (goBack_prepared r s) = navigationHistory s"
  "historyIndex (goBack_prepared r s) = historyIndex s - 1"
  "effects (goBack_prepared r s) =
     effects s
     @ ConsoleLog (GoingBack r)
     # notify BLUR (Target (currentScreen s)) (historyIndex s - 1, navigationHistory s)
         (listeners s BLUR)
     @ notify FOCUS (Target r) (historyIndex s - 1, navigationHistory s) (listeners s FOCUS)"
  by (simp_all add: goBack_prepared_def Let_def)

lemma replace_unfold:
  "replace r p s =
     (case renderScreenWithAnimation (Str r) p ''fade'' (replace_prepared r p s) of
        Inl t \<Rightarrow> Inl t
      | Inr s1 \<Rightarrow>
          (case getDeepLink r p of
             Inl e \<Rightarrow> Inl (e, emitNavigationEvent FOCUS (Target (Str r)) s1)
           | Inr url \<Rightarrow>
               Inr (doing [ReplaceState (Str r, p) url]
                      (emitNavigationEvent FOCUS (Target (Str r)) s1))))"
  by (simp add: replace_def replace_prepared_def Let_def cong: sum.case_cong)

lemma replace_prepared_sel [simp]:
  "navigationState (replace_prepared r p s) = navigationState s"
  "currentScreen (replace_prepared r p s) = Str r"
  "screenParams (replace_prepared r p s) =
     store_set (screenParams s) r (spread (store_get (screenParams s) r) p)"
  "listeners (replace_prepared r p s) = listeners s"
  "animationInProgress (replace_prepared r p s) = animationInProgress s"
  "pendingTimers (replace_prepared r p s) = pendingTimers s"
  "navigationHistory (replace_prepared r p s) =
     (if navigationHistory s \<noteq> [] then js_set (navigationHistory s) (historyIndex s) (Str r, p)
      else slice0 (navigationHistory s) (historyIndex s + 1) @ [Some (Str r, p)])"
  "historyIndex (replace_prepared r p s) =
     (if navigationHistory s \<noteq> [] then historyIndex s
      else int (length (slice0 (navigationHistory s) (historyIndex s + 1))))"
  "effects (replace_prepared r p s) =
     effects s
     @ ConsoleLog (Replacing r p)
     # notify BEFORE_REMOVE (Action ''REPLACE'' r p) (historyIndex s, navigationHistory s)
         (listeners s BEFORE_REMOVE)
     @ notify BLUR (Target (currentScreen s))
         (if navigationHistory s \<noteq> []
          then (historyIndex s, js_set (navigationHistory s) (historyIndex s) (Str r, p))
          else (int (length (slice0 (navigationHistory s) (historyIndex s + 1))),
                slice0 (navigationHistory s) (historyIndex s + 1) @ [Some (Str r, p)]))
         (listeners s BLUR)"
  by (simp_all add: replace_prepared_def Let_def)

lemma reset_unfold:
  "reset r p s =
     (case renderScreenWithAnimation (Str r) p ''fade'' (reset_prepared r p s) of
        Inl t \<Rightarrow> Inl t
      | Inr s1 \<Rightarrow> Inr (emitNavigationEvent FOCUS (Target (Str r)) s1))"
  by (simp add: reset_def reset_prepared_def Let_def cong: sum.case_cong)

lemma reset_prepared_sel [simp]:
  "navigationState (reset_prepared r p s) = navigationState s"
  "currentScreen (reset_prepared r p s) = Str r"
  "screenParams (reset_prepared r p s) = empty_store"
  "listeners (reset_prepared r p s) = listeners s"
  "animationInProgress (reset_prepared r p s) = animationInProgress s"
  "pendingTimers (reset_prepared r p s) = pendingTimers s"
  "navigationHistory (reset_prepared r p s) = [Some (Str r, p)]"
  "historyIndex (reset_prepared r p s) = 0"
  "effects (reset_prepared r p s) = effects s @ [ConsoleLog (Resetting r)]"
  by (simp_all add: reset_prepared_def Let_def slice0_def)

section \<open>What each operation does to the fields\<close>

lemma run_Nil [simp]: "run [] s = s"
  by (simp add: run_def)

lemma run_Cons [simp]: "run (c # cs) s = run cs (perform c s)"
  by (simp add: run_def)

lemma run_append: "run (cs @ ds) s = run ds (run cs s)"
  by (simp add: run_def)

lemma valid_routes [simp]:
  "isValidRoute ''Welcome''" "isValidRoute ''Home''" "isValidRoute ''RecipeDetail''"
  "isValidRoute ''MyFood''" "isValidRoute ''CustomRecipesScreen''"
  "isValidRoute ''RecipesFormScreen''" "isValidRoute ''FavoriteScreen''"
  by (simp_all add: isValidRoute_def ROUTES_def)

lemma valid_configured [simp]: "isValidRoute r \<Longrightarrow> lookup SCREEN_CONFIG r \<noteq> Absent"
  by (auto simp add: isValidRoute_def ROUTES_def SCREEN_CONFIG_def lookup_def)

lemma valid_link: "isValidRoute r \<Longrightarrow> \<exists>url. getDeepLink r p = Inr (Str url)"
  by (auto simp add: isValidRoute_def ROUTES_def DEEP_LINKS_def lookup_def getDeepLink_def)

lemma navigate_unknown:
  "\<not> isValidRoute r \<Longrightarrow>
   navigate r p a s =
     Inr (s\<lparr>effects := effects s @ [ConsoleLog (Navigating r p), ConsoleError (RouteNotFound r)]\<rparr>)"
  by (simp add: navigate_def Let_def console_log_def console_error_def doing_def)

lemma navigate_blocked:
  "isValidRoute r \<Longrightarrow> animationInProgress s \<Longrightarrow>
   navigate r p a s =
     Inr (s\<lparr>effects := effects s @ [ConsoleLog (Navigating r p), ConsoleLog NavigationBlocked]\<rparr>)"
  by (simp add: navigate_def Let_def console_log_def doing_def)

lemma navigate_result:
  assumes "isValidRoute r" and "\<not> animationInProgress s"
  shows "navigate r p a s =
     (case snd (rendering (Str r) p (chosen_animation r a)) of
        Some e \<Rightarrow> Inl (e, rendered (Str r) p (chosen_animation r a) (navigate_prepared r p s))
      | None \<Rightarrow>
          (case getDeepLink r p of
             Inl e \<Rightarrow>
               Inl (e, emitNavigationEvent FOCUS (Target (Str r))
                         (rendered (Str r) p (chosen_animation r a) (navigate_prepared r p s)))
           | Inr url \<Rightarrow>
               Inr (emitNavigationEvent STATE
                      (StateData (historyIndex (navigate_prepared r p s))
                         (navigationHistory (navigate_prepared r p s)))
                      (doing [PushState (Str r, p) url, SetTitle (page_title (Str r))]
                         (emitNavigationEvent FOCUS (Target (Str r))
                            (rendered (Str r) p (chosen_animation r a)
                               (navigate_prepared r p s)))))))"
  using assms
  by (simp add: navigate_unfold render_eq updateBrowserHistory_def
      split: option.splits sum.splits)

lemma navigate_ok:
  assumes "isValidRoute r" and "\<not> animationInProgress s"
  shows "navigationHistory (perform (Navigate r p a) s) =
           slice0 (navigationHistory s) (historyIndex s + 1) @ [Some (Str r, p)]"
    and "historyIndex (perform (Navigate r p a) s) =
           int (length (slice0 (navigationHistory s) (historyIndex s + 1)))"
    and "currentScreen (perform (Navigate r p a) s) = Str r"
    and "animationInProgress (perform (Navigate r p a) s)"
    and "listeners (perform (Navigate r p a) s) = listeners s"
    and "screenParams (perform (Navigate r p a) s) =
           store_set (screenParams s) r (spread (store_get (screenParams s) r) p)"
  using assms by (simp_all add: perform.simps navigate_result split: option.splits sum.splits)

lemma goBack_root:
  "\<not> canGoBack s \<Longrightarrow> goBack s = Inr (s\<lparr>effects := effects s @ [ConsoleLog CannotGoBack]\<rparr>)"
  by (simp add: goBack_def console_log_def doing_def)

lemma goBack_result:
  assumes "0 < historyIndex s"
    and "js_index (navigationHistory s) (historyIndex s - 1) = Some (r, p)"
  shows "goBack s =
     (case snd (rendering r p ''slide_from_left'') of
        Some e \<Rightarrow> Inl (e, rendered r p ''slide_from_left'' (goBack_prepared r s))
      | None \<Rightarrow>
          updateBrowserHistory r p (rendered r p ''slide_from_left'' (goBack_prepared r s)))"
  using assms by (simp add: goBack_unfold canGoBack_def render_eq split: option.splits)

lemma update_sel [simp]:
  "navigationState (left_by (updateBrowserHistory r p s)) = navigationState s"
  "currentScreen (left_by (updateBrowserHistory r p s)) = currentScreen s"
  "screenParams (left_by (updateBrowserHistory r p s)) = screenParams s"
  "listeners (left_by (updateBrowserHistory r p s)) = listeners s"
  "animationInProgress (left_by (updateBrowserHistory r p s)) = animationInProgress s"
  "pendingTimers (left_by (updateBrowserHistory r p s)) = pendingTimers s"
  "navigationHistory (left_by (updateBrowserHistory r p s)) = navigationHistory s"
  "historyIndex (left_by (updateBrowserHistory r p s)) = historyIndex s"
  by (simp_all add: updateBrowserHistory_def split: sum.splits)

lemma goBack_ok:
  assumes "0 < historyIndex s"
    and "js_index (navigationHistory s) (historyIndex s - 1) = Some (r, p)"
  shows "navigationHistory (perform GoBack s) = navigationHistory s"
    and "historyIndex (perform GoBack s) = historyIndex s - 1"
    and "currentScreen (perform GoBack s) = r"
    and "animationInProgress (perform GoBack s) = (lookup SCREEN_CONFIG (ToString r) \<noteq> Absent)"
    and "pendingTimers (perform GoBack s) =
           (if lookup SCREEN_CONFIG (ToString r) \<noteq> Absent
               \<and> snd (rendering r p ''slide_from_left'') = None
            then pendingTimers s + 1 else pendingTimers s)"
    and "listeners (perform GoBack s) = listeners s"
    and "screenParams (perform GoBack s) = screenParams s"
  using assms by (simp_all add: perform.simps goBack_result split: option.splits)

lemma goBack_hole:
  assumes "0 < historyIndex s"
    and "js_index (navigationHistory s) (historyIndex s - 1) = None"
  shows "perform GoBack s = doing [Uncaught TypeError] (s\<lparr>historyIndex := historyIndex s - 1\<rparr>)"
  using assms by (simp add: perform.simps goBack_unfold canGoBack_def)

lemma replace_result:
  "replace r p s =
     (case snd (rendering (Str r) p ''fade'') of
        Some e \<Rightarrow> Inl (e, rendered (Str r) p ''fade'' (replace_prepared r p s))
      | None \<Rightarrow>
          (case getDeepLink r p of
             Inl e \<Rightarrow>
               Inl (e, emitNavigationEvent FOCUS (Target (Str r))
                         (rendered (Str r) p ''fade'' (replace_prepared r p s)))
           | Inr url \<Rightarrow>
               Inr (doing [ReplaceState (Str r, p) url]
                      (emitNavigationEvent FOCUS (Target (Str r))
                         (rendered (Str r) p ''fade'' (replace_prepared r p s))))))"
  by (simp add: replace_unfold render_eq split: option.splits sum.splits)

lemma replace_fields:
  "navigationHistory (perform (Replace r p) s) =
     (if navigationHistory s \<noteq> [] then js_set (navigationHistory s) (historyIndex s) (Str r, p)
      else slice0 (navigationHistory s) (historyIndex s + 1) @ [Some (Str r, p)])"
  "historyIndex (perform (Replace r p) s) =
     (if navigationHistory s \<noteq> [] then historyIndex s
      else int (length (slice0 (navigationHistory s) (historyIndex s + 1))))"
  "currentScreen (perform (Replace r p) s) = Str r"
  "animationInProgress (perform (Replace r p) s) = (lookup SCREEN_CONFIG r \<noteq> Absent)"
  "listeners (perform (Replace r p) s) = listeners s"
  "screenParams (perform (Replace r p) s) =
     store_set (screenParams s) r (spread (store_get (screenParams s) r) p)"
  by (simp_all add: perform.simps replace_result split: option.splits sum.splits)

lemma reset_result:
  "reset r p s =
     (case snd (rendering (Str r) p ''fade'') of
        Some e \<Rightarrow> Inl (e, rendered (Str r) p ''fade'' (reset_prepared r p s))
      | None \<Rightarrow>
          Inr (emitNavigationEvent FOCUS (Target (Str r))
                 (rendered (Str r) p ''fade'' (reset_prepared r p s))))"
  by (simp add: reset_unfold render_eq split: option.splits)

lemma reset_fields:
  "navigationHistory (perform (Reset r p) s) = [Some (Str r, p)]"
  "historyIndex (perform (Reset r p) s) = 0"
  "currentScreen (perform (Reset r p) s) = Str r"
  "animationInProgress (perform (Reset r p) s) = (lookup SCREEN_CONFIG r \<noteq> Absent)"
  "listeners (perform (Reset r p) s) = listeners s"
  "screenParams (perform (Reset r p) s) = empty_store"
  by (simp_all add: perform.simps reset_result split: option.splits)

lemma reset_timers:
  "pendingTimers (perform (Reset r p) s) =
     (if lookup SCREEN_CONFIG r \<noteq> Absent \<and> snd (rendering (Str r) p ''fade'') = None
      then pendingTimers s + 1 else pendingTimers s)"
  by (simp add: perform.simps reset_result split: option.splits)

lemma replace_timers:
  "pendingTimers (perform (Replace r p) s) =
     (if lookup SCREEN_CONFIG r \<noteq> Absent \<and> snd (rendering (Str r) p ''fade'') = None
      then pendingTimers s + 1 else pendingTimers s)"
  by (simp add: perform.simps replace_result split: option.splits sum.splits)

section \<open>The stack invariant\<close>

lemma navigate_inv:
  "stack_invariant s \<Longrightarrow> stack_invariant (perform (Navigate r p a) s)"
proof (cases "isValidRoute r \<and> \<not> animationInProgress s")
  case True
  then show ?thesis
    using navigate_ok(1,2) [of r s p a] by (simp add: stack_invariant_def)
next
  case False
  assume "stack_invariant s"
  with False show ?thesis
    by (cases "isValidRoute r") (simp_all add: perform.simps navigate_unknown navigate_blocked stack_invariant_def)
qed

lemma replace_inv: "stack_invariant s \<Longrightarrow> stack_invariant (perform (Replace r p) s)"
  by (simp add: replace_fields stack_invariant_def js_set_def)

lemma reset_inv: "stack_invariant (perform (Reset r p) s)"
  by (simp add: reset_fields stack_invariant_def)

lemma goBack_inv: "stack_invariant s \<Longrightarrow> stack_invariant (perform GoBack s)"
proof (cases "canGoBack s")
  case False
  assume "stack_invariant s"
  with False show ?thesis
    by (simp add: perform.simps goBack_root stack_invariant_def)
next
  case True
  assume inv: "stack_invariant s"
  show ?thesis
  proof (cases "js_index (navigationHistory s) (historyIndex s - 1)")
    case None
    with True inv show ?thesis
      using goBack_hole [of s]
      by (simp add: canGoBack_def stack_invariant_def)
  next
    case (Some e)
    obtain r p where "e = (r, p)" by (cases e)
    with Some True inv show ?thesis
      using goBack_ok(1,2) [of s r p]
      by (simp add: canGoBack_def stack_invariant_def)
  qed
qed

lemma perform_inv: "stack_invariant s \<Longrightarrow> stack_invariant (perform c s)"
  by (cases c)
    (simp_all add: navigate_inv replace_inv reset_inv goBack_inv,
     simp add: stack_invariant_def)

lemma run_inv: "stack_invariant s \<Longrightarrow> stack_invariant (run cs s)"
  by (induction cs arbitrary: s) (simp_all add: perform_inv)

section \<open>Construction never throws\<close>

lemma valid_cases:
  "isValidRoute r \<Longrightarrow>
   r = ''Welcome'' \<or> r = ''Home'' \<or> r = ''RecipeDetail'' \<or> r = ''MyFood''
   \<or> r = ''CustomRecipesScreen'' \<or> r = ''RecipesFormScreen'' \<or> r = ''FavoriteScreen''"
  by (simp add: isValidRoute_def ROUTES_def)

lemma route_no_whitespace: "isValidRoute r \<Longrightarrow> \<not> has_whitespace r"
  by (drule valid_cases, elim disjE) (simp_all add: has_whitespace_def)

lemma rendering_valid:
  assumes "isValidRoute r" and "\<not> has_whitespace animation"
  shows "rendering (Str r) p animation =
     (HideAllScreens # Transition animation # fst (renderScreen (Str r) p)
        @ (if r = ''MyFood'' \<or> r = ''CustomRecipesScreen'' then []
           else [ScreenClass (''screen-'' @ toLowerCase r)]),
      if r = ''MyFood'' \<or> r = ''CustomRecipesScreen'' then Some TypeError else None)"
proof -
  have "snd (renderScreen (Str r) p) =
          (if r = ''MyFood'' \<or> r = ''CustomRecipesScreen'' then Some TypeError else None)"
    by (simp add: renderScreen_def Let_def)
  then show ?thesis
    using assms
    by (cases "renderScreen (Str r) p")
       (simp add: rendering_def route_no_whitespace)
qed

lemma navigate_timers:
  assumes "isValidRoute r" and "\<not> animationInProgress s"
  shows "pendingTimers (perform (Navigate r p a) s) =
           (if snd (rendering (Str r) p (chosen_animation r a)) = None
            then pendingTimers s + 1 else pendingTimers s)"
  using assms by (simp add: perform.simps navigate_result split: option.splits sum.splits)

lemma chosen_usable:
  "isValidRoute r \<Longrightarrow> usable a \<Longrightarrow> \<not> has_whitespace (chosen_animation r a)"
  by (cases a; drule valid_cases; elim disjE)
     (simp_all add: chosen_animation_def getAnimation_def lookup_def SCREEN_CONFIG_def
        has_whitespace_def)

lemma navigate_returns:
  assumes "isValidRoute r" and "\<not> animationInProgress s" and "usable a"
    and "r \<noteq> ''MyFood''" and "r \<noteq> ''CustomRecipesScreen''"
  shows "navigate r p a s = Inr (perform (Navigate r p a) s)"
proof -
  obtain url where "getDeepLink r p = Inr (Str url)"
    using valid_link [OF assms(1)] by blast
  then show ?thesis
    using assms
    by (simp add: perform.simps navigate_result rendering_valid chosen_usable)
qed

lemma navigate_throws:
  assumes "isValidRoute r" and "\<not> animationInProgress s" and "usable a"
    and "r = ''MyFood'' \<or> r = ''CustomRecipesScreen''"
  shows "navigate r p a s =
           Inl (TypeError, rendered (Str r) p (chosen_animation r a) (navigate_prepared r p s))"
  using assms by (simp add: navigate_result rendering_valid chosen_usable)

lemma handleInitialRoute_sel [simp]:
  "animationInProgress (handleInitialRoute hash s) = animationInProgress s"
  "listeners (handleInitialRoute hash s) = listeners s"
  "effects (handleInitialRoute hash s) = effects s"
  "screenParams (handleInitialRoute hash s) = screenParams s"
  "pendingTimers (handleInitialRoute hash s) = pendingTimers s"
  by (simp_all add: handleInitialRoute_def split: option.splits)

lemma init_returns:
  "\<not> animationInProgress s \<Longrightarrow>
   init hash s =
     Inr (console_log Features (console_log Initialized
            (perform (Navigate ''Welcome'' [] None)
               (addListener STATE performanceMonitor
                  (handleInitialRoute hash (console_log Initializing s))))))"
  by (simp add: init_def Let_def navigate_returns)

lemma constructor_returns:
  "constructor hash = Inr (WebNavigationContainer hash)"
  by (simp add: WebNavigationContainer_def constructor_def init_returns)

lemma constructed_inv: "stack_invariant (WebNavigationContainer hash)"
proof -
  have "stack_invariant (perform (Navigate ''Welcome'' [] None) s)"
    if "\<not> animationInProgress s" for s
    using that navigate_ok(1,2) [of "''Welcome''" s "[]" None]
    by (simp add: stack_invariant_def)
  then show ?thesis
    by (simp add: WebNavigationContainer_def constructor_def init_returns stack_invariant_def)
qed

lemma constructed_fields:
  "navigationHistory (WebNavigationContainer []) = [Some (Str ''Welcome'', [])]"
  "historyIndex (WebNavigationContainer []) = 0"
  "currentScreen (WebNavigationContainer []) = Str ''Welcome''"
  "animationInProgress (WebNavigationContainer []) = True"
  "pendingTimers (WebNavigationContainer []) = 1"
  "listeners (WebNavigationContainer []) = (\<lambda>c. [])(STATE := [performanceMonitor])"
  by (simp_all add: WebNavigationContainer_def constructor_def init_returns navigate_ok
      navigate_timers rendering_valid chosen_usable handleInitialRoute_def slice0_def)

section \<open>The invariant after any sequence of calls\<close>

text \<open>
  Claim C1. Whatever sequence of \<open>navigate\<close>, \<open>replace\<close>, \<open>reset\<close> and \<open>goBack\<close> calls (and
  animation timers firing in between) is applied to a freshly constructed container, the
  resulting state has \<open>0 \<le> historyIndex < navigationHistory.length\<close> and a history of at
  least one entry; this holds also where a call ends with an exception.
\<close>

theorem stack_invariant_always:
  "0 \<le> historyIndex (run calls (WebNavigationContainer hash))
   \<and> historyIndex (run calls (WebNavigationContainer hash))
       < int (length (navigationHistory (run calls (WebNavigationContainer hash))))
   \<and> 1 \<le> length (navigationHistory (run calls (WebNavigationContainer hash)))"
  using run_inv [OF constructed_inv, of calls hash] by (simp add: stack_invariant_def)

section \<open>Going back at the root\<close>

lemma goBack_root_again:
  "\<not> canGoBack s \<Longrightarrow>
   historyIndex (run (replicate n GoBack) s) = historyIndex s
   \<and> navigationHistory (run (replicate n GoBack) s) = navigationHistory s"
proof (induction n arbitrary: s)
  case 0
  then show ?case by simp
next
  case (Suc n)
  have step: "perform GoBack s = console_log CannotGoBack s"
    using Suc.prems by (simp add: perform.simps goBack_def)
  then have "\<not> canGoBack (perform GoBack s)"
    using Suc.prems by (simp add: canGoBack_def)
  from Suc.IH [OF this] show ?case
    by (simp add: step)
qed

text \<open>
  Claim C8. When \<open>canGoBack()\<close> is false, \<open>goBack()\<close> returns normally, writes the line
  that it cannot go back, and leaves every field of the container as it was: the history
  index and the sequence of entries are identical to those before the call, and they stay
  so however often the call is repeated.
\<close>

theorem goBack_at_root:
  "\<not> canGoBack s \<Longrightarrow>
   goBack s = Inr (s\<lparr>effects := effects s @ [ConsoleLog CannotGoBack]\<rparr>)
   \<and> historyIndex (run (replicate n GoBack) s) = historyIndex s
   \<and> navigationHistory (run (replicate n GoBack) s) = navigationHistory s"
  by (simp add: goBack_root goBack_root_again del: run_Cons)

theorem goBack_at_root_witness:
  "\<not> canGoBack (WebNavigationContainer [])
   \<and> goBack (WebNavigationContainer []) =
       Inr ((WebNavigationContainer [])
              \<lparr>effects := effects (WebNavigationContainer []) @ [ConsoleLog CannotGoBack]\<rparr>)
   \<and> historyIndex (run (replicate 2 GoBack) (WebNavigationContainer [])) = 0
   \<and> navigationHistory (run (replicate 2 GoBack) (WebNavigationContainer []))
       = [Some (Str ''Welcome'', [])]"
  using goBack_at_root [of "WebNavigationContainer []" 2]
  by (simp add: canGoBack_def constructed_fields del: run_Cons)

section \<open>What the example states hold\<close>

lemma idle_fields:
  "navigationHistory idle_example = [Some (Str ''Welcome'', [])]"
  "historyIndex idle_example = 0"
  "currentScreen idle_example = Str ''Welcome''"
  "animationInProgress idle_example = False"
  "pendingTimers idle_example = 0"
  "listeners idle_example = (\<lambda>c. [])(STATE := [performanceMonitor])"
  by (simp_all add: idle_example_def constructed_fields)

lemma animating_fields:
  "navigationHistory animating_example = [Some (Str ''Welcome'', []), Some (Str ''Home'', [])]"
  "historyIndex animating_example = 1"
  "currentScreen animating_example = Str ''Home''"
  "animationInProgress animating_example = True"
  "listeners animating_example = (\<lambda>c. [])(STATE := [performanceMonitor])"
  by (simp_all add: animating_example_def navigate_ok idle_fields slice0_def)

lemma goBack_effects:
  assumes "0 < historyIndex s"
    and "js_index (navigationHistory s) (historyIndex s - 1) = Some (r, p)"
  shows "effects (perform GoBack s) =
     effects s
     @ ConsoleLog (GoingBack r)
     # notify BLUR (Target (currentScreen s)) (historyIndex s - 1, navigationHistory s)
         (listeners s BLUR)
     @ notify FOCUS (Target r) (historyIndex s - 1, navigationHistory s) (listeners s FOCUS)
     @ fst (rendering r p ''slide_from_left'')
     @ (case snd (rendering r p ''slide_from_left'') of
          Some e \<Rightarrow> [Uncaught e]
        | None \<Rightarrow>
            (case getDeepLink (ToString r) p of
               Inl e \<Rightarrow> [Uncaught e]
             | Inr url \<Rightarrow>
                 if callable r then [Uncaught DataCloneError]
                 else [PushState (r, p) url, SetTitle (page_title r)]))"
  using assms
  by (simp add: perform.simps goBack_result updateBrowserHistory_def split: option.splits sum.splits)

section \<open>Operations while an animation is in flight\<close>

text \<open>
  Claim C2 says that \<open>navigate\<close>, \<open>replace\<close>, \<open>reset\<close> and \<open>goBack\<close> are all ignored while
  \<open>animationInProgress\<close> is true. Only \<open>navigate\<close> tests the flag (lemma
  \<open>navigate_blocked\<close>). In the state just after a navigation from \<open>Welcome\<close> to \<open>Home\<close>,
  with the flag still set, \<open>goBack\<close> moves the index from 1 to 0 and renders \<open>Welcome\<close>,
  \<open>replace\<close> overwrites the current entry, and \<open>reset\<close> replaces the whole history
  (shown for the targets \<open>MyFood\<close> and \<open>FavoriteScreen\<close>).
\<close>

theorem unguarded_while_animating:
  "animationInProgress animating_example
   \<and> navigationHistory animating_example = [Some (Str ''Welcome'', []), Some (Str ''Home'', [])]
   \<and> historyIndex animating_example = 1
   \<and> historyIndex (perform GoBack animating_example) = 0
   \<and> currentScreen (perform GoBack animating_example) = Str ''Welcome''
   \<and> Transition ''slide_from_left'' \<in> set (effects (perform GoBack animating_example))
   \<and> Mount ''WelcomeScreen'' [] \<in> set (effects (perform GoBack animating_example))
   \<and> navigationHistory (perform (Replace ''MyFood'' []) animating_example)
       = [Some (Str ''Welcome'', []), Some (Str ''MyFood'', [])]
   \<and> navigationHistory (perform (Reset ''MyFood'' []) animating_example)
       = [Some (Str ''MyFood'', [])]
   \<and> navigationHistory (perform (Replace ''FavoriteScreen'' []) animating_example)
       = [Some (Str ''Welcome'', []), Some (Str ''FavoriteScreen'', [])]
   \<and> navigationHistory (perform (Reset ''FavoriteScreen'' []) animating_example)
       = [Some (Str ''FavoriteScreen'', [])]
   \<and> historyIndex (perform (Reset ''FavoriteScreen'' []) animating_example) = 0"
  using goBack_ok [of animating_example "Str ''Welcome''" "[]"]
    goBack_effects [of animating_example "Str ''Welcome''" "[]"]
  by (simp add: animating_fields js_index_def replace_fields reset_fields js_set_def
      rendering_valid has_whitespace_def renderScreen_def)

section \<open>Unregistered routes\<close>

text \<open>
  Claim C3 says that \<open>navigate\<close>, \<open>replace\<close> and \<open>reset\<close> all check the route before they
  touch the history. Only \<open>navigate\<close> does (lemma \<open>navigate_unknown\<close>). Called with the
  unregistered name \<open>NoSuchScreen\<close> on an idle container showing \<open>Welcome\<close>, \<open>replace\<close>
  and \<open>reset\<close> both put an entry for \<open>NoSuchScreen\<close> into the history and make it the
  current screen.
\<close>

theorem unknown_route_mutates:
  "\<not> isValidRoute ''NoSuchScreen''
   \<and> navigationHistory idle_example = [Some (Str ''Welcome'', [])]
   \<and> currentScreen idle_example = Str ''Welcome''
   \<and> navigationHistory (perform (Replace ''NoSuchScreen'' []) idle_example)
       = [Some (Str ''NoSuchScreen'', [])]
   \<and> currentScreen (perform (Replace ''NoSuchScreen'' []) idle_example) = Str ''NoSuchScreen''
   \<and> navigationHistory (perform (Reset ''NoSuchScreen'' []) idle_example)
       = [Some (Str ''NoSuchScreen'', [])]
   \<and> currentScreen (perform (Reset ''NoSuchScreen'' []) idle_example) = Str ''NoSuchScreen''"
  by (simp add: idle_fields replace_fields reset_fields js_set_def isValidRoute_def ROUTES_def)

section \<open>Browser history\<close>

lemma browser_calls_append [simp]:
  "browser_calls (xs @ ys) = browser_calls xs @ browser_calls ys"
  by (induction xs rule: browser_calls.induct) simp_all

lemma browser_calls_notify [simp]: "browser_calls (notify c d st cbs) = []"
  by (induction cbs) (simp_all split: reaction.splits)

lemma browser_calls_renderScreen [simp]: "browser_calls (fst (renderScreen r p)) = []"
  by (simp add: renderScreen_def Let_def)

lemma browser_calls_rendering [simp]: "browser_calls (fst (rendering r p a)) = []"
  using browser_calls_renderScreen [of r p]
  by (cases "renderScreen r p")
     (simp add: rendering_def split: option.splits dyn.splits jsval.splits)

text \<open>
  Claim C7 says that \<open>navigate\<close>, \<open>replace\<close> and \<open>reset\<close> each push or replace an entry of
  the browser's history. \<open>navigate\<close> pushes one and \<open>replace\<close> replaces one (lemmas
  \<open>navigate_pushes\<close> and \<open>replace_replaces\<close>), but \<open>reset\<close>, with any screen name and
  parameters and in any state, makes no call of the browser's history API at all.
\<close>

theorem reset_no_browser_history:
  "browser_calls (effects (perform (Reset screenName params) s)) = browser_calls (effects s)"
  by (simp add: perform.simps reset_result split: option.splits)

lemma rendering_returns:
  assumes "isValidRoute r" and "\<not> has_whitespace animation"
    and "r \<noteq> ''MyFood''" and "r \<noteq> ''CustomRecipesScreen''"
  shows "snd (rendering (Str r) p animation) = None"
  using assms by (simp add: rendering_valid)

lemma navigate_pushes:
  assumes "isValidRoute r" and "\<not> animationInProgress s" and "usable a"
    and "r \<noteq> ''MyFood''" and "r \<noteq> ''CustomRecipesScreen''"
  shows "\<exists>url. getDeepLink r p = Inr url
           \<and> browser_calls (effects (perform (Navigate r p a) s)) =
               browser_calls (effects s) @ [PushState (Str r, p) url]"
proof -
  obtain url where "getDeepLink r p = Inr (Str url)"
    using valid_link [OF assms(1)] by blast
  then show ?thesis
    using assms by (simp add: perform.simps navigate_result rendering_returns chosen_usable)
qed

lemma replace_replaces:
  assumes "isValidRoute r" and "r \<noteq> ''MyFood''" and "r \<noteq> ''CustomRecipesScreen''"
  shows "\<exists>url. getDeepLink r p = Inr url
           \<and> browser_calls (effects (perform (Replace r p) s)) =
               browser_calls (effects s) @ [ReplaceState (Str r, p) url]"
proof -
  obtain url where "getDeepLink r p = Inr (Str url)"
    using valid_link [OF assms(1)] by blast
  then show ?thesis
    using assms by (simp add: perform.simps replace_result rendering_returns has_whitespace_def)
qed

section \<open>Forward history\<close>

lemma targets_Cons: "set (targets (c # cs)) = set (targets [c]) \<union> set (targets cs)"
  by (cases c) auto

lemma navigate_history:
  "navigationHistory (perform (Navigate r p a) s) =
     (if isValidRoute r \<and> \<not> animationInProgress s
      then slice0 (navigationHistory s) (historyIndex s + 1) @ [Some (Str r, p)]
      else navigationHistory s)"
proof (cases "isValidRoute r \<and> \<not> animationInProgress s")
  case True
  then show ?thesis
    using navigate_ok(1) [of r s p a] by (simp)
next
  case False
  then show ?thesis
    by (cases "isValidRoute r") (simp_all add: perform.simps navigate_unknown navigate_blocked)
qed

lemma goBack_history: "navigationHistory (perform GoBack s) = navigationHistory s"
proof (cases "canGoBack s")
  case False
  then show ?thesis by (simp add: perform.simps goBack_root)
next
  case True
  show ?thesis
  proof (cases "js_index (navigationHistory s) (historyIndex s - 1)")
    case None
    with True show ?thesis
      using goBack_hole [of s] by (simp add: canGoBack_def)
  next
    case (Some e)
    obtain r p where "e = (r, p)" by (cases e)
    with Some True show ?thesis
      using goBack_ok(1) [of s r p] by (simp add: canGoBack_def)
  qed
qed

lemma entries_perform:
  assumes "stack_invariant s"
  shows "set (navigationHistory (perform c s))
           \<subseteq> set (navigationHistory s) \<union> Some ` set (targets [c])"
proof (cases c)
  case (Navigate r p a)
  have "set (slice0 (navigationHistory s) (historyIndex s + 1)) \<subseteq> set (navigationHistory s)"
    by (simp add: slice0_def set_take_subset)
  then show ?thesis
    using Navigate by (auto simp add: navigate_history)
next
  case GoBack
  then show ?thesis
    by (simp add: goBack_history)
next
  case (Replace r p)
  have "set ((navigationHistory s)[nat (historyIndex s) := Some (Str r, p)])
          \<subseteq> insert (Some (Str r, p)) (set (navigationHistory s))"
    by (rule set_update_subset_insert)
  then show ?thesis
    using Replace assms
    by (auto simp add: replace_fields js_set_def stack_invariant_def)
next
  case (Reset r p)
  then show ?thesis by (simp add: reset_fields)
next
  case AnimationTimeout
  then show ?thesis by simp
qed

lemma entries_run:
  "stack_invariant s \<Longrightarrow>
   set (navigationHistory (run cs s)) \<subseteq> set (navigationHistory s) \<union> Some ` set (targets cs)"
proof (induction cs arbitrary: s)
  case Nil
  then show ?case by simp
next
  case (Cons c cs)
  have "set (navigationHistory (run cs (perform c s)))
          \<subseteq> set (navigationHistory (perform c s)) \<union> Some ` set (targets cs)"
    using Cons.IH [OF perform_inv [OF Cons.prems]] .
  moreover have "set (navigationHistory (perform c s))
          \<subseteq> set (navigationHistory s) \<union> Some ` set (targets [c])"
    using entries_perform [OF Cons.prems] .
  ultimately show ?case
    unfolding run_Cons targets_Cons [of c cs] by blast
qed

lemma navigate_then_timeout:
  assumes "isValidRoute r" and "\<not> animationInProgress s" and "usable a"
    and "r \<noteq> ''MyFood''" and "r \<noteq> ''CustomRecipesScreen''"
  shows "\<not> animationInProgress (animationTimeout (perform (Navigate r p a) s))"
  using assms by (simp add: navigate_timers rendering_returns chosen_usable)

lemma reset_then_timeout:
  assumes "isValidRoute r" and "r \<noteq> ''MyFood''" and "r \<noteq> ''CustomRecipesScreen''"
  shows "\<not> animationInProgress (animationTimeout (perform (Reset r p) s))"
  using assms by (simp add: reset_timers rendering_returns has_whitespace_def)

lemma three_screens_fields:
  "navigationHistory three_screens =
     [Some (Str ''Home'', []), Some (Str ''RecipeDetail'', [(''id'', JStr ''42'')]),
      Some (Str ''FavoriteScreen'', [])]"
  "historyIndex three_screens = 2"
proof -
  let ?a = "animationTimeout (perform (Reset ''Home'' []) (WebNavigationContainer []))"
  have a: "navigationHistory ?a = [Some (Str ''Home'', [])]" "historyIndex ?a = 0"
    "\<not> animationInProgress ?a"
    using reset_then_timeout [of "''Home''" "[]" "WebNavigationContainer []"]
    by (simp_all add: reset_fields)
  let ?b = "animationTimeout
              (perform (Navigate ''RecipeDetail'' [(''id'', JStr ''42'')] None) ?a)"
  have b: "navigationHistory ?b =
             [Some (Str ''Home'', []), Some (Str ''RecipeDetail'', [(''id'', JStr ''42'')])]"
    "historyIndex ?b = 1" "\<not> animationInProgress ?b"
    using a navigate_then_timeout [of "''RecipeDetail''" ?a None "[(''id'', JStr ''42'')]"]
    by (simp_all add: navigate_ok slice0_def)
  show "navigationHistory three_screens =
     [Some (Str ''Home'', []), Some (Str ''RecipeDetail'', [(''id'', JStr ''42'')]),
      Some (Str ''FavoriteScreen'', [])]"
    "historyIndex three_screens = 2"
    using b by (simp_all add: three_screens_def navigate_ok slice0_def)
qed

text \<open>
  Claim C4. From a history \<open>Home\<close>, \<open>RecipeDetail\<close>, \<open>FavoriteScreen\<close> with index 2, two
  \<open>goBack\<close> calls lead to \<open>Home\<close> at index 0, and \<open>navigate('MyFood', {})\<close> then leaves
  the history \<open>Home\<close>, \<open>MyFood\<close> with index 1 (each call is made after the animation of
  the previous one has ended). The two discarded entries are gone for good: after any
  later sequence of calls, every entry of the history is one of the two kept ones or the
  target of one of those later calls. (The renderer of \<open>MyFood\<close> throws, see
  \<open>navigate_throws\<close>; by then the history has been updated, and the state meant is the one
  the call leaves.)
\<close>

theorem forward_pruning:
  assumes "navigationHistory s =
             [Some (Str ''Home'', ph), Some (Str ''RecipeDetail'', pd),
              Some (Str ''FavoriteScreen'', pf)]"
    and "historyIndex s = 2"
  shows "historyIndex (run [GoBack, AnimationTimeout, GoBack, AnimationTimeout] s) = 0
     \<and> currentScreen (run [GoBack, AnimationTimeout, GoBack, AnimationTimeout] s) = Str ''Home''
     \<and> navigationHistory
         (run [GoBack, AnimationTimeout, GoBack, AnimationTimeout, Navigate ''MyFood'' [] None] s)
         = [Some (Str ''Home'', ph), Some (Str ''MyFood'', [])]
     \<and> historyIndex
         (run [GoBack, AnimationTimeout, GoBack, AnimationTimeout, Navigate ''MyFood'' [] None] s)
         = 1
     \<and> set (navigationHistory
         (run later
           (run [GoBack, AnimationTimeout, GoBack, AnimationTimeout, Navigate ''MyFood'' [] None]
              s)))
         \<subseteq> {Some (Str ''Home'', ph), Some (Str ''MyFood'', [])} \<union> Some ` set (targets later)"
proof -
  let ?s1 = "perform GoBack s"
  have s1: "navigationHistory ?s1 = navigationHistory s" "historyIndex ?s1 = 1"
    using goBack_ok [of s "Str ''RecipeDetail''" pd] assms by (simp_all add: js_index_def)
  let ?s2 = "perform GoBack (animationTimeout ?s1)"
  have s2: "navigationHistory ?s2 = navigationHistory s" "historyIndex ?s2 = 0"
    "currentScreen ?s2 = Str ''Home''" "0 < pendingTimers ?s2"
    using goBack_ok [of "animationTimeout ?s1" "Str ''Home''" ph] assms s1
    by (simp_all add: js_index_def rendering_returns has_whitespace_def)
  let ?s3 = "perform (Navigate ''MyFood'' [] None) (animationTimeout ?s2)"
  have s3: "navigationHistory ?s3 = [Some (Str ''Home'', ph), Some (Str ''MyFood'', [])]"
    "historyIndex ?s3 = 1"
    using assms s2 by (simp_all add: navigate_ok slice0_def)
  have inv: "stack_invariant ?s3"
    by (simp add: stack_invariant_def s3)
  have "set (navigationHistory (run later ?s3))
          \<subseteq> set (navigationHistory ?s3) \<union> Some ` set (targets later)"
    using entries_run [OF inv] .
  then show ?thesis
    using s2 s3 by (simp)
qed

theorem forward_pruning_witness:
  "navigationHistory three_screens =
     [Some (Str ''Home'', []), Some (Str ''RecipeDetail'', [(''id'', JStr ''42'')]),
      Some (Str ''FavoriteScreen'', [])]
   \<and> historyIndex three_screens = 2
   \<and> navigationHistory
       (run [GoBack, AnimationTimeout, GoBack, AnimationTimeout, Navigate ''MyFood'' [] None]
          three_screens)
       = [Some (Str ''Home'', []), Some (Str ''MyFood'', [])]
   \<and> historyIndex
       (run [GoBack, AnimationTimeout, GoBack, AnimationTimeout, Navigate ''MyFood'' [] None]
          three_screens)
       = 1
   \<and> set (navigationHistory
       (run [GoBack, AnimationTimeout, GoBack]
         (run [GoBack, AnimationTimeout, GoBack, AnimationTimeout, Navigate ''MyFood'' [] None]
            three_screens)))
       \<subseteq> {Some (Str ''Home'', []), Some (Str ''MyFood'', [])}"
  using forward_pruning [OF three_screens_fields, of "[GoBack, AnimationTimeout, GoBack]"]
    three_screens_fields
  by (simp del: run_Cons)

section \<open>Order of events around a navigation\<close>

lemma stages_append [simp]: "stages (xs @ ys) = stages xs @ stages ys"
  by (induction xs rule: stages.induct) simp_all

lemma stages_notify [simp]:
  "stages (notify c d st cbs) = map (\<lambda>cb. Fired c (ident cb)) cbs"
  by (induction cbs) (simp_all split: reaction.splits)

lemma stages_renderScreen [simp]: "stages (fst (renderScreen r p)) = []"
  by (simp add: renderScreen_def Let_def)

lemma stages_rendering:
  "stages (fst (rendering r p a)) =
     (if lookup SCREEN_CONFIG (ToString r) = Absent \<or> has_whitespace a then [] else [Rendered])"
  using stages_renderScreen [of r p]
  by (cases "renderScreen r p")
     (simp add: rendering_def split: option.splits dyn.splits jsval.splits)

lemma calls_append [simp]: "filter is_call (xs @ ys) = filter is_call xs @ filter is_call ys"
  by simp

lemma calls_of_notify:
  "filter is_call (notify c d st cbs) = map (\<lambda>cb. Call c (ident cb) d st) cbs"
  by (induction cbs) (simp_all split: reaction.splits)

lemma calls_of_renderScreen [simp]: "filter is_call (fst (renderScreen r p)) = []"
  by (simp add: renderScreen_def Let_def)

lemma calls_of_rendering [simp]: "filter is_call (fst (rendering r p a)) = []"
  using calls_of_renderScreen [of r p]
  by (cases "renderScreen r p")
     (simp add: rendering_def split: option.splits dyn.splits jsval.splits)




lemma listener_examples [simp]:
  "ident (subscriber i) = i" "react (subscriber i) d st = Returns"
  "ident (thrower i) = i" "react (thrower i) d st = Throws ''boom''"
  "ident performanceMonitor = 0" "react performanceMonitor d st = Returns"
  by (simp_all add: subscriber_def thrower_def performanceMonitor_def)






text \<open>
  The routes \<open>MyFood\<close> and \<open>CustomRecipesScreen\<close> are left out above: their renderers call
  \<open>init\<close> on components that have no such member, so the call throws once the rendering
  has begun. The listeners of \<open>beforeRemove\<close> and \<open>blur\<close> have been called by then, those
  of \<open>focus\<close> and \<open>state\<close> never are, and the flag \<open>animationInProgress\<close> stays set with no
  timer to clear it.
\<close>

lemma navigate_missing_component:
  assumes "r = ''MyFood'' \<or> r = ''CustomRecipesScreen''"
    and "usable a" and "\<not> animationInProgress s"
  shows "\<exists>s'. navigate r p a s = Inl (TypeError, s')"
    and "stages (effects (perform (Navigate r p a) s)) =
           stages (effects s)
           @ map (\<lambda>cb. Fired BEFORE_REMOVE (ident cb)) (listeners s BEFORE_REMOVE)
           @ (if ToBoolean (currentScreen s)
              then map (\<lambda>cb. Fired BLUR (ident cb)) (listeners s BLUR) else [])
           @ [Rendered]"
    and "animationInProgress (perform (Navigate r p a) s)"
    and "pendingTimers (perform (Navigate r p a) s) = pendingTimers s"
proof -
  have valid: "isValidRoute r"
    using assms(1) by auto
  show "\<exists>s'. navigate r p a s = Inl (TypeError, s')"
    using navigate_throws [OF valid assms(3,2,1)] by simp
  show "stages (effects (perform (Navigate r p a) s)) =
           stages (effects s)
           @ map (\<lambda>cb. Fired BEFORE_REMOVE (ident cb)) (listeners s BEFORE_REMOVE)
           @ (if ToBoolean (currentScreen s)
              then map (\<lambda>cb. Fired BLUR (ident cb)) (listeners s BLUR) else [])
           @ [Rendered]"
    using navigate_throws [OF valid assms(3,2,1)] valid assms
    by (simp add: perform.simps stages_rendering chosen_usable getState_def)
  show "animationInProgress (perform (Navigate r p a) s)"
    using valid assms(3) by (simp add: navigate_ok)
  show "pendingTimers (perform (Navigate r p a) s) = pendingTimers s"
    using valid assms by (auto simp add: navigate_timers rendering_valid chosen_usable)
qed

section \<open>Listeners that throw\<close>

lemma listener_errors_append [simp]:
  "listener_errors (xs @ ys) = listener_errors xs @ listener_errors ys"
  by (induction xs rule: listener_errors.induct) simp_all

lemma errors_of_notify:
  "listener_errors (notify c d st cbs) = concat (map (\<lambda>cb. thrown (react cb d st)) cbs)"
  by (induction cbs) (simp_all split: reaction.splits)

lemma registration_order:
  "listeners (fold (addListener c) cbs s) c = listeners s c @ cbs"
  by (induction cbs arbitrary: s) simp_all

lemma notify_quiet:
  "filter (\<lambda>e. \<not> is_listener_error e) (notify c d st cbs) = notify c d st (map quiet cbs)"
  by (induction cbs) (simp_all add: quiet_def split: reaction.splits)

lemma renderScreen_quiet [simp]:
  "filter (\<lambda>e. \<not> is_listener_error e) (fst (renderScreen r p)) = fst (renderScreen r p)"
  by (simp add: renderScreen_def Let_def)

lemma rendering_quiet [simp]:
  "filter (\<lambda>e. \<not> is_listener_error e) (fst (rendering r p a)) = fst (rendering r p a)"
  using renderScreen_quiet [of r p]
  by (cases "renderScreen r p")
     (simp add: rendering_def split: option.splits dyn.splits jsval.splits)

lemma calm_sel [simp]:
  "navigationState (calm s) = navigationState s"
  "currentScreen (calm s) = currentScreen s"
  "screenParams (calm s) = screenParams s"
  "listeners (calm s) c = map quiet (listeners s c)"
  "animationInProgress (calm s) = animationInProgress s"
  "pendingTimers (calm s) = pendingTimers s"
  "navigationHistory (calm s) = navigationHistory s"
  "historyIndex (calm s) = historyIndex s"
  "effects (calm s) = filter (\<lambda>e. \<not> is_listener_error e) (effects s)"
  by (simp_all add: calm_def)

lemma calm_update:
  "calm (s\<lparr>currentScreen := x\<rparr>) = (calm s)\<lparr>currentScreen := x\<rparr>"
  "calm (s\<lparr>screenParams := y\<rparr>) = (calm s)\<lparr>screenParams := y\<rparr>"
  "calm (s\<lparr>historyIndex := i\<rparr>) = (calm s)\<lparr>historyIndex := i\<rparr>"
  "calm (s\<lparr>navigationHistory := h\<rparr>) = (calm s)\<lparr>navigationHistory := h\<rparr>"
  "calm (s\<lparr>navigationHistory := h, historyIndex := i, screenParams := y\<rparr>)
     = (calm s)\<lparr>navigationHistory := h, historyIndex := i, screenParams := y\<rparr>"
  by (simp_all add: calm_def)

lemma calm_steps:
  "calm (doing es s) = doing (filter (\<lambda>e. \<not> is_listener_error e) es) (calm s)"
  "calm (console_log m s) = console_log m (calm s)"
  "calm (console_error (RouteNotFound r) s) = console_error (RouteNotFound r) (calm s)"
  "calm (emitNavigationEvent c d s) = emitNavigationEvent c d (calm s)"
  "calm (rendered x p a s) = rendered x p a (calm s)"
  "calm (NavigationState_emit n s) = NavigationState_emit n (calm s)"
  "calm (addToHistory x p s) = addToHistory x p (calm s)"
  "calm (animationTimeout s) = animationTimeout (calm s)"
  by (simp_all add: calm_def doing_def console_log_def console_error_def
      emitNavigationEvent_def rendered_def NavigationState_emit_def
      addToHistory_def animationTimeout_def getState_def notify_quiet Let_def)

lemma calm_prepared:
  "calm (navigate_prepared r p s) = navigate_prepared r p (calm s)"
  "calm (goBack_prepared x s) = goBack_prepared x (calm s)"
  "calm (replace_prepared r p s) = replace_prepared r p (calm s)"
  "calm (reset_prepared r p s) = reset_prepared r p (calm s)"
  by (simp_all add: navigate_prepared_def goBack_prepared_def replace_prepared_def
      reset_prepared_def Let_def calm_steps calm_update)

lemma calm_navigate: "calm (perform (Navigate r p a) s) = perform (Navigate r p a) (calm s)"
proof (cases "isValidRoute r")
  case False
  then show ?thesis
    by (simp add: perform.simps navigate_def Let_def calm_steps)
next
  case valid: True
  show ?thesis
  proof (cases "animationInProgress s")
    case True
    with valid show ?thesis
      by (simp add: perform.simps navigate_def Let_def calm_steps)
  next
    case False
    with valid show ?thesis
      by (simp add: perform.simps navigate_result calm_steps calm_prepared
          split: option.splits sum.splits)
  qed
qed

lemma calm_replace: "calm (perform (Replace r p) s) = perform (Replace r p) (calm s)"
  by (simp add: perform.simps replace_result calm_steps calm_prepared
      split: option.splits sum.splits)

lemma calm_reset: "calm (perform (Reset r p) s) = perform (Reset r p) (calm s)"
  by (simp add: perform.simps reset_result calm_steps calm_prepared split: option.splits)

lemma calm_goBack: "calm (perform GoBack s) = perform GoBack (calm s)"
  by (simp add: perform.simps goBack_unfold render_eq updateBrowserHistory_def canGoBack_def
      calm_steps calm_prepared calm_update split: option.splits sum.splits)

lemma calm_perform: "calm (perform call s) = perform call (calm s)"
  by (cases call)
    (simp_all add: calm_navigate calm_replace calm_reset calm_goBack calm_steps)

lemma thrower_in_the_middle:
  "effects (emitNavigationEvent FOCUS (Target (Str ''Home''))
              (fold (addListener FOCUS) [subscriber 1, thrower 2, subscriber 3] idle_example)) =
     effects idle_example
     @ [Call FOCUS 1 (Target (Str ''Home'')) (0, [Some (Str ''Welcome'', [])]),
        Call FOCUS 2 (Target (Str ''Home'')) (0, [Some (Str ''Welcome'', [])]),
        ConsoleError (ListenerError ''boom''),
        Call FOCUS 3 (Target (Str ''Home'')) (0, [Some (Str ''Welcome'', [])])]"
  by (simp add: idle_fields)

text \<open>
  Claim C9. For every channel, event and state of the container, \<open>emitNavigationEvent\<close>
  calls every listener registered for the channel, each once and in the order of the list
  (first equation), which is the order of registration (fourth equation). Each exception
  thrown by a listener is caught and written to the console, one line for each listener
  that throws and in their order (second equation), and the loop goes on; the emission
  returns and changes nothing else (third equation). The operation around it is not
  affected: performing any call with the given listeners leaves the same state, listener
  calls and other effects as performing it with listeners that never throw, apart from
  those console lines (fifth equation).
\<close>

theorem listeners_isolated:
  "filter is_call (effects (emitNavigationEvent eventType data s))
     = filter is_call (effects s)
       @ map (\<lambda>cb. Call eventType (ident cb) data (getState s)) (listeners s eventType)
   \<and> listener_errors (effects (emitNavigationEvent eventType data s))
     = listener_errors (effects s)
       @ concat (map (\<lambda>cb. thrown (react cb data (getState s))) (listeners s eventType))
   \<and> (emitNavigationEvent eventType data s)\<lparr>effects := effects s\<rparr> = s
   \<and> listeners (fold (addListener eventType) callbacks s) eventType
     = listeners s eventType @ callbacks
   \<and> calm (perform call s) = perform call (calm s)"
  by (simp add: calls_of_notify errors_of_notify registration_order calm_perform
      getState_def)

section \<open>Stored screen parameters\<close>

lemma map_of_js_put: "map_of (js_put k v xs) = (map_of xs)(k \<mapsto> v)"
  by (induction xs) auto

lemma keys_js_put: "fst ` set (js_put k v xs) = insert k (fst ` set xs)"
  by (simp add: dom_map_of_conv_image_fst [symmetric] map_of_js_put)

lemma distinct_js_put: "distinct (map fst xs) \<Longrightarrow> distinct (map fst (js_put k v xs))"
  by (induction xs) (auto simp add: keys_js_put)

lemma map_of_fold_put:
  "map_of (fold (\<lambda>(k, v) acc. js_put k v acc) b acc) = map_of acc ++ map_of (rev b)"
  by (induction b arbitrary: acc) (auto simp add: map_of_js_put)

lemma distinct_fold_put:
  "distinct (map fst acc) \<Longrightarrow> distinct (map fst (fold (\<lambda>(k, v) acc. js_put k v acc) b acc))"
  by (induction b arbitrary: acc) (auto simp add: distinct_js_put)

lemma distinct_spread: "distinct (map fst (spread a b))"
  by (simp add: spread_def distinct_fold_put)

lemma map_of_rev_distinct: "distinct (map fst xs) \<Longrightarrow> map_of (rev xs) = map_of xs"
  by (rule map_of_inject_set [THEN iffD2]) (simp_all add: distinct_rev rev_map [symmetric])

lemma map_of_spread:
  "distinct (map fst b) \<Longrightarrow>
   map_of (spread a b) = map_of (spread a []) ++ map_of b"
  by (simp add: spread_def map_of_fold_put map_of_rev_distinct)

lemma spread_undefined: "spread (Data JUndefined) b = spread (Data (JObj [])) b"
  by (simp add: spread_def)

lemma map_of_spread_copy:
  "map_of (spread (Data (JObj (spread a b))) []) = map_of (spread a b)"
  by (simp add: spread_def [of "Data (JObj x)" for x] map_of_fold_put map_of_rev_distinct
      distinct_spread)

lemma valid_not_proto: "isValidRoute r \<Longrightarrow> r \<noteq> ''__proto__''"
  by (auto simp add: isValidRoute_def ROUTES_def)

lemma own_props_set_same:
  "r \<noteq> ''__proto__'' \<Longrightarrow> own_props (store_set st r obj) r = Some obj"
  by (simp add: store_set_def)

lemma own_props_set_other:
  "k \<noteq> r \<Longrightarrow> own_props (store_set st k obj) r = own_props st r"
  by (simp add: store_set_def)

lemma store_get_own: "own_props st r = Some obj \<Longrightarrow> store_get st r = Data (JObj obj)"
  by (simp add: store_get_def)

lemma goBack_params: "screenParams (perform GoBack s) = screenParams s"
proof (cases "canGoBack s")
  case False
  then show ?thesis by (simp add: perform.simps goBack_root)
next
  case True
  show ?thesis
  proof (cases "js_index (navigationHistory s) (historyIndex s - 1)")
    case None
    with True show ?thesis
      using goBack_hole [of s] by (simp add: canGoBack_def)
  next
    case (Some e)
    obtain r p where "e = (r, p)" by (cases e)
    with Some True show ?thesis
      using goBack_ok(7) [of s r p] by (simp add: canGoBack_def)
  qed
qed

lemma navigate_params:
  "screenParams (perform (Navigate r p a) s) =
     (if isValidRoute r \<and> \<not> animationInProgress s
      then store_set (screenParams s) r (spread (store_get (screenParams s) r) p)
      else screenParams s)"
proof (cases "isValidRoute r \<and> \<not> animationInProgress s")
  case True
  then show ?thesis
    using navigate_ok(6) [of r s p a] by simp
next
  case False
  then show ?thesis
    by (cases "isValidRoute r") (simp_all add: perform.simps navigate_unknown navigate_blocked)
qed

lemma leaves_perform:
  "leaves r c \<Longrightarrow>
   own_props (screenParams (perform c s)) r = own_props (screenParams s) r"
  by (cases c)
     (simp_all add: navigate_params replace_fields goBack_params own_props_set_other)

lemma leaves_run:
  "list_all (leaves r) cs \<Longrightarrow>
   own_props (screenParams (run cs s)) r = own_props (screenParams s) r"
  by (induction cs arbitrary: s) (simp_all add: leaves_perform)

lemma idle_params: "screenParams idle_example = store_set empty_store ''Welcome'' []"
  by (simp add: idle_example_def WebNavigationContainer_def constructor_def init_returns
      navigate_ok)
     (simp add: store_get_def empty_store_def spread_def Object_prototype_def)

text \<open>
  Claim C10, as the code has it. Let \<open>navigate(r, p1)\<close> and later \<open>navigate(r, p2)\<close> both
  go through (registered route, no animation in flight at either call), with calls in
  between that neither reset the container nor navigate to or replace with \<open>r\<close>. Then the
  parameters stored for \<open>r\<close>, which \<open>getCurrentRoute\<close> reports, are what was stored before
  the first of the two calls, overlaid with \<open>p1\<close>, overlaid with \<open>p2\<close>; where nothing was
  stored before they are exactly \<open>p1\<close> overlaid with \<open>p2\<close>. In particular, with \<open>p2\<close> empty
  every key of \<open>p1\<close> is still reported.
\<close>

theorem params_accumulate:
  assumes "isValidRoute r" and "\<not> animationInProgress s"
    and "distinct (map fst p1)" and "distinct (map fst p2)"
    and "list_all (leaves r) between"
    and "\<not> animationInProgress (run between (perform (Navigate r p1 a1) s))"
  shows "\<exists>stored.
     store_get
       (screenParams (perform (Navigate r p2 a2) (run between (perform (Navigate r p1 a1) s)))) r
       = Data (JObj stored)
     \<and> getCurrentRoute (perform (Navigate r p2 a2) (run between (perform (Navigate r p1 a1) s)))
       = (Str r, Data (JObj stored))
     \<and> map_of stored = map_of (spread (store_get (screenParams s) r) []) ++ map_of p1 ++ map_of p2
     \<and> (store_get (screenParams s) r = Data JUndefined \<longrightarrow>
          map_of stored = map_of p1 ++ map_of p2)"
proof -
  let ?s1 = "perform (Navigate r p1 a1) s"
  let ?s' = "run between ?s1"
  let ?s2 = "perform (Navigate r p2 a2) ?s'"
  let ?first = "spread (store_get (screenParams s) r) p1"
  let ?stored = "spread (Data (JObj ?first)) p2"
  have proto: "r \<noteq> ''__proto__''"
    using assms(1) by (rule valid_not_proto)
  have "own_props (screenParams ?s1) r = Some ?first"
    using assms(1,2) proto by (simp add: navigate_ok own_props_set_same)
  then have "own_props (screenParams ?s') r = Some ?first"
    using assms(5) by (simp add: leaves_run)
  then have "store_get (screenParams ?s') r = Data (JObj ?first)"
    by (rule store_get_own)
  then have "own_props (screenParams ?s2) r = Some ?stored" and cur: "currentScreen ?s2 = Str r"
    using assms(1,6) proto by (simp_all add: navigate_ok own_props_set_same)
  then have stored: "store_get (screenParams ?s2) r = Data (JObj ?stored)"
    by (simp add: store_get_own)
  have "map_of ?stored = map_of (spread (Data (JObj ?first)) []) ++ map_of p2"
    using assms(4) by (rule map_of_spread)
  also have "map_of (spread (Data (JObj ?first)) []) = map_of ?first"
    by (rule map_of_spread_copy)
  also have "map_of ?first = map_of (spread (store_get (screenParams s) r) []) ++ map_of p1"
    using assms(3) by (rule map_of_spread)
  finally have m: "map_of ?stored =
      map_of (spread (store_get (screenParams s) r) []) ++ map_of p1 ++ map_of p2" .
  have "store_get (screenParams s) r = Data JUndefined \<longrightarrow>
          map_of ?stored = map_of p1 ++ map_of p2"
  proof
    assume "store_get (screenParams s) r = Data JUndefined"
    then have "map_of (spread (store_get (screenParams s) r) []) = Map.empty"
      by (simp add: spread_def)
    then show "map_of ?stored = map_of p1 ++ map_of p2"
      using m by simp
  qed
  then show ?thesis
    using stored cur m by (simp add: getCurrentRoute_def)
qed

lemma idle_nothing_stored:
  "store_get (screenParams idle_example) ''RecipeDetail'' = Data JUndefined"
  by (simp add: idle_params store_get_def store_set_def empty_store_def Object_prototype_def)

lemma between_example:
  "\<not> animationInProgress
       (run [AnimationTimeout, Navigate ''Home'' [] None, AnimationTimeout]
          (perform (Navigate ''RecipeDetail'' [(''id'', JStr ''42'')] None) idle_example))"
proof -
  let ?a = "animationTimeout
              (perform (Navigate ''RecipeDetail'' [(''id'', JStr ''42'')] None) idle_example)"
  have a: "\<not> animationInProgress ?a"
    by (rule navigate_then_timeout) (simp_all add: idle_fields)
  have "\<not> animationInProgress (animationTimeout (perform (Navigate ''Home'' [] None) ?a))"
    by (rule navigate_then_timeout [OF valid_routes(2) a]) simp_all
  then show ?thesis
    by simp
qed

theorem params_accumulate_witness:
  "isValidRoute ''RecipeDetail'' \<and> \<not> animationInProgress idle_example
   \<and> distinct (map fst [(''id'', JStr ''42'')]) \<and> distinct (map fst ([] :: params))
   \<and> list_all (leaves ''RecipeDetail'')
        [AnimationTimeout, Navigate ''Home'' [] None, AnimationTimeout]
   \<and> \<not> animationInProgress
         (run [AnimationTimeout, Navigate ''Home'' [] None, AnimationTimeout]
            (perform (Navigate ''RecipeDetail'' [(''id'', JStr ''42'')] None) idle_example))
   \<and> (\<exists>stored.
        getCurrentRoute
          (perform (Navigate ''RecipeDetail'' [] None)
             (run [AnimationTimeout, Navigate ''Home'' [] None, AnimationTimeout]
                (perform (Navigate ''RecipeDetail'' [(''id'', JStr ''42'')] None)
                   idle_example)))
          = (Str ''RecipeDetail'', Data (JObj stored))
        \<and> map_of stored = [''id'' \<mapsto> JStr ''42''])"
  using params_accumulate [of "''RecipeDetail''" idle_example "[(''id'', JStr ''42'')]" "[]"
      "[AnimationTimeout, Navigate ''Home'' [] None, AnimationTimeout]" None None]
    between_example
  by (auto simp add: idle_fields idle_nothing_stored simp del: run_Cons)

lemma visited_then_reset_fields:
  "animationInProgress visited_then_reset = False"
  "screenParams visited_then_reset = empty_store"
  using reset_then_timeout [of "''Home''" "[]"]
  by (simp_all add: visited_then_reset_def reset_fields)

text \<open>
  Claim C10 as stated fails where the container is reset between the two visits: \<open>reset\<close>
  assigns \<open>this.screenParams = {}\<close>. After \<open>navigate('RecipeDetail', {id: '42'})\<close>, which
  stores and reports the \<open>id\<close>, a \<open>reset\<close> to \<open>Home\<close> and \<open>navigate('RecipeDetail', {})\<close>,
  both of which go through, \<open>getCurrentRoute\<close> reports no parameter at all.
\<close>

theorem params_lost_by_reset:
  "isValidRoute ''RecipeDetail'' \<and> \<not> animationInProgress idle_example
   \<and> getCurrentRoute
        (perform (Navigate ''RecipeDetail'' [(''id'', JStr ''42'')] None) idle_example)
       = (Str ''RecipeDetail'', Data (JObj [(''id'', JStr ''42'')]))
   \<and> \<not> animationInProgress visited_then_reset
   \<and> currentScreen (perform (Navigate ''RecipeDetail'' [] None) visited_then_reset)
       = Str ''RecipeDetail''
   \<and> getCurrentRoute (perform (Navigate ''RecipeDetail'' [] None) visited_then_reset)
       = (Str ''RecipeDetail'', Data (JObj []))"
  by (simp add: getCurrentRoute_def navigate_ok idle_fields idle_nothing_stored
      visited_then_reset_fields)
     (simp add: store_get_def store_set_def empty_store_def spread_def Object_prototype_def)

section \<open>Deep links\<close>

lemma GetSubstitution_plain: "plain rep \<Longrightarrow> GetSubstitution matched pre post rep = rep"
  by (induction rep rule: plain.induct) auto

lemma split_no_separator: "d \<notin> set s \<Longrightarrow> split d s = [s]"
  by (induction s) auto

lemma getDeepLink_recipe:
  "plain v \<Longrightarrow> getDeepLink ''RecipeDetail'' [(''id'', JStr v)] = Inr (Str (''/recipe/'' @ v))"
  by (simp add: getDeepLink_def lookup_def DEEP_LINKS_def substitute_def js_get_def
      js_replace_def GetSubstitution_plain)

lemma parseDeepLink_recipe:
  "v \<noteq> [] \<Longrightarrow> CHR ''/'' \<notin> set v \<Longrightarrow>
   parseDeepLink (''/recipe/'' @ v) = (''RecipeDetail'', [(''id'', JStr v)])"
  by (simp add: parseDeepLink_def split_no_separator)

lemma id_param_Some: "id_param p = Some v \<Longrightarrow> p = [(''id'', JStr v)]"
  by (erule id_param.elims) (simp_all split: if_splits)

lemma round_trip_plain_routes:
  "isValidRoute r \<Longrightarrow> r \<noteq> ''RecipeDetail'' \<Longrightarrow>
   \<exists>url. getDeepLink r [] = Inr (Str url) \<and> parseDeepLink url = (r, [])"
  by (drule valid_cases, elim disjE)
     (simp_all add: getDeepLink_def lookup_def DEEP_LINKS_def substitute_def parseDeepLink_def)

text \<open>
  Claim C6, as the code has it. \<open>getDeepLink('RecipeDetail', {id: '42'})\<close> is
  \<open>/recipe/42\<close> and \<open>parseDeepLink('/recipe/42')\<close> is \<open>RecipeDetail\<close> with \<open>{id: '42'}\<close>.
  For a registered route and the parameters of its path template, \<open>getDeepLink\<close> returns
  a string, and parsing it gives the route and the parameters back, provided that the
  \<open>id\<close> of \<open>RecipeDetail\<close> is a non-empty string without \<open>/\<close> and without the replacement
  patterns of \<open>String.prototype.replace\<close>.
\<close>

theorem deep_link_round_trip:
  assumes "isValidRoute r" and "template_params r p"
  shows "(\<exists>url. getDeepLink r p = Inr (Str url) \<and> parseDeepLink url = (r, p))
     \<and> getDeepLink ''RecipeDetail'' [(''id'', JStr ''42'')] = Inr (Str ''/recipe/42'')
     \<and> parseDeepLink ''/recipe/42'' = (''RecipeDetail'', [(''id'', JStr ''42'')])"
proof -
  have "\<exists>url. getDeepLink r p = Inr (Str url) \<and> parseDeepLink url = (r, p)"
  proof (cases "r = ''RecipeDetail''")
    case True
    then obtain v where v: "id_param p = Some v" "v \<noteq> []" "CHR ''/'' \<notin> set v" "plain v"
      using assms(2) by (auto simp add: template_params_def split: option.splits)
    then have "p = [(''id'', JStr v)]"
      by (simp add: id_param_Some)
    then show ?thesis
      using True v getDeepLink_recipe [of v] parseDeepLink_recipe [of v] by simp
  next
    case False
    then have "p = []"
      using assms(2) by (simp add: template_params_def)
    then show ?thesis
      using False assms(1) by (simp add: round_trip_plain_routes)
  qed
  moreover have "getDeepLink ''RecipeDetail'' [(''id'', JStr ''42'')] = Inr (Str ''/recipe/42'')"
    using getDeepLink_recipe [of "''42''"] by simp
  moreover have "parseDeepLink ''/recipe/42'' = (''RecipeDetail'', [(''id'', JStr ''42'')])"
    using parseDeepLink_recipe [of "''42''"] by simp
  ultimately show ?thesis by simp
qed

theorem deep_link_round_trip_witness:
  "isValidRoute ''RecipeDetail'' \<and> template_params ''RecipeDetail'' [(''id'', JStr ''42'')]
   \<and> (\<exists>url. getDeepLink ''RecipeDetail'' [(''id'', JStr ''42'')] = Inr (Str url)
         \<and> parseDeepLink url = (''RecipeDetail'', [(''id'', JStr ''42'')]))"
  using deep_link_round_trip [of "''RecipeDetail''" "[(''id'', JStr ''42'')]"]
  by (simp add: template_params_def)

text \<open>
  Without the proviso the round trip fails: the link is built by plain substitution and
  parsed by splitting at \<open>/\<close>, so of the id \<open>a/b\<close> only \<open>a\<close> comes back.
\<close>

theorem deep_link_slash:
  "isValidRoute ''RecipeDetail''
   \<and> getDeepLink ''RecipeDetail'' [(''id'', JStr ''a/b'')] = Inr (Str ''/recipe/a/b'')
   \<and> parseDeepLink ''/recipe/a/b'' = (''RecipeDetail'', [(''id'', JStr ''a'')])
   \<and> parseDeepLink ''/recipe/a/b'' \<noteq> (''RecipeDetail'', [(''id'', JStr ''a/b'')])"
  using getDeepLink_recipe [of "''a/b''"] by (simp add: parseDeepLink_def)

text \<open>
  The other provisos are needed as well: an empty id comes back as \<open>undefined\<close>, the id
  \<open>$&\<close> is replaced by the matched placeholder, a number comes back as a string, and
  parameters that the template does not name leave the placeholder in the link.
\<close>

lemma deep_link_other_failures:
  "getDeepLink ''RecipeDetail'' [(''id'', JStr [])] = Inr (Str ''/recipe/'')"
  "parseDeepLink ''/recipe/'' = (''RecipeDetail'', [(''id'', JUndefined)])"
  "getDeepLink ''RecipeDetail'' [(''id'', JStr ''$&'')] = Inr (Str ''/recipe/:id'')"
  "getDeepLink ''RecipeDetail'' [(''id'', JNum 42)] = Inr (Str ''/recipe/42'')"
  "getDeepLink ''RecipeDetail'' [(''recipe'', JObj [])] = Inr (Str ''/recipe/:id'')"
  "parseDeepLink ''/recipe/:id'' = (''RecipeDetail'', [(''id'', JStr '':id'')])"
  by (simp_all add: getDeepLink_def lookup_def DEEP_LINKS_def substitute_def js_get_def
      js_replace_def parseDeepLink_def decimal.simps)

section \<open>Names that plain objects inherit\<close>

text \<open>
  The tables of the source are plain objects, so a lookup under a name of
  \<open>Object.prototype\<close> finds the inherited member. A location hash \<open>#/constructor\<close> thus
  seeds the history with a function as screen, and going back to that entry ends with the
  exception that \<open>history.pushState\<close> raises for a state it cannot clone. The name
  \<open>toString\<close> counts as a configured screen for \<open>renderScreenWithAnimation\<close>, which then
  finds no renderer for it.
\<close>

lemma findScreenByRoute_examples:
  "findScreenByRoute ''home'' = Some (Str ''Home'')"
  "findScreenByRoute ''Constructor'' = Some (Member ''constructor'')"
  "findScreenByRoute ''__proto__'' = Some (Member ''__proto__'')"
  "findScreenByRoute ''nowhere'' = None"
  by (simp_all add: findScreenByRoute_def lookup_def routeMap_def toLowerCase_def
      Object_prototype_def)

lemma constructed_with_inherited:
  "navigationHistory (WebNavigationContainer ''#/constructor'') =
     [Some (Member ''constructor'', []), Some (Str ''Welcome'', [])]"
  "historyIndex (WebNavigationContainer ''#/constructor'') = 1"
  by (simp_all add: WebNavigationContainer_def constructor_def init_returns navigate_ok
      handleInitialRoute_def findScreenByRoute_def lookup_def routeMap_def toLowerCase_def
      Object_prototype_def slice0_def addToHistory_def Let_def console_log_def doing_def)

lemma goBack_to_inherited:
  "goBack (WebNavigationContainer ''#/constructor'') =
     Inl (DataCloneError,
          rendered (Member ''constructor'') [] ''slide_from_left''
            (goBack_prepared (Member ''constructor'')
               (WebNavigationContainer ''#/constructor'')))"
  "animationInProgress (perform GoBack (WebNavigationContainer ''#/constructor'')) = False"
  using goBack_result [of "WebNavigationContainer ''#/constructor''" "Member ''constructor''" "[]"]
    goBack_ok(4) [of "WebNavigationContainer ''#/constructor''" "Member ''constructor''" "[]"]
  by (simp_all add: constructed_with_inherited js_index_def rendering_def lookup_def
      SCREEN_CONFIG_def Object_prototype_def updateBrowserHistory_def getDeepLink_def
      DEEP_LINKS_def substitute_def)

lemma rendering_inherited:
  "rendering (Str ''toString'') [] ''fade'' =
     ([HideAllScreens, Transition ''fade'', ConsoleError (NoRenderer (Str ''toString'')),
       ScreenClass ''screen-tostring''], None)"
  by (simp add: rendering_def lookup_def SCREEN_CONFIG_def Object_prototype_def
      has_whitespace_def renderScreen_def toLowerCase_def)

end
